theory Spec2Isabelle
  imports Main
begin

section \<open>Data model\<close>

text \<open>
  The generator of \<^verbatim>\<open>ts/index.ts\<close> maps collection definitions of a storage registry to
  TypeScript type declarations. The declarations of \<^verbatim>\<open>@worldbrain/storex\<close> are external;
  the parts the generator reads are modelled here.

  \<^item> \<^verbatim>\<open>autoPkType : 'string' | 'int' | 'generic'\<close> is a datatype; \<open>autoPkKey\<close> gives the
    string the source uses as a key of a type map.
  \<^item> A JavaScript object used as a dictionary is a map of its own properties; reading a
    key of it is \<open>propertyRead\<close>, which also finds what a plain object inherits.
  \<^item> An object whose enumeration order matters (\<^verbatim>\<open>Object.entries\<close>,
    \<^verbatim>\<open>Object.values\<close>) is an association list in that order.
  \<^item> An optional property (\<^verbatim>\<open>relationships?\<close>) is an \<open>option\<close>.
  \<^item> The property \<^verbatim>\<open>fields\<close> of a collection definition is the field \<open>collFields\<close>.
\<close>

datatype autoPk = AutoPkString | AutoPkInt | AutoPkGeneric

fun autoPkKey :: "autoPk \<Rightarrow> string" where
  "autoPkKey AutoPkString = ''string''"
| "autoPkKey AutoPkInt = ''int''"
| "autoPkKey AutoPkGeneric = ''generic''"

text \<open>A field definition: \<^verbatim>\<open>optional\<close> absent reads as false.\<close>

record collectionField =
  type :: string
  optional :: bool

text \<open>
  \<^verbatim>\<open>pkIndex\<close> is either a field name or something else (a compound index, a relationship
  reference); the source only asks \<^verbatim>\<open>typeof pkIndex === 'string'\<close>.
\<close>

datatype pkIndexT = PkField string | PkOther

text \<open>
  A relationship is classified by the probes \<^verbatim>\<open>isChildOfRelationship\<close> and
  \<^verbatim>\<open>isConnectsRelationship\<close>, always asked in this order; the constructor records the
  first probe that answers yes, \<open>OtherRelationship\<close> that none does. The property
  \<^verbatim>\<open>alias\<close> is the field \<open>relAlias\<close>.
\<close>

record childOf =
  relAlias :: string
  reverseAlias :: string
  single :: bool
  targetCollection :: string
  sourceCollection :: string

datatype relationship =
    ChildOf childOf
  | Connects string string
  | OtherRelationship

record collectionDefinition =
  name :: string
  pkIndex :: pkIndexT
  collFields :: "(string \<times> collectionField) list"
  relationships :: "relationship list option"
  reverseRelationshipsByAlias :: "(string \<times> relationship) list option"

text \<open>
  The options of one run. \<^verbatim>\<open>generateImport\<close> maps a collection name to the path of
  the module that declares it. The snapshot of the generator with \<^verbatim>\<open>skipTypes\<close>
  extends the record.
\<close>

record options =
  autoPkType :: autoPk
  fieldTypeMap :: "(string \<rightharpoonup> string) option"
  collections :: "string list"
  generateImport :: "(string \<Rightarrow> string) option"

record skipOptions = options +
  skipTypes :: "string list option"

text \<open>
  What a run can write: the set of referenced collection names of the generation context
  (a JavaScript \<^verbatim>\<open>Set\<close>, which iterates in insertion order: a list without
  duplicates) and the console. The registry is part of the state as well, so that a write
  to it could be expressed.
\<close>

record jsState =
  storageRegistry :: "string \<rightharpoonup> collectionDefinition"
  referencedImports :: "string list"
  console :: "string list"

text \<open>\<^verbatim>\<open>Set.prototype.add\<close>: a member is not added again and keeps its place.\<close>

definition setAdd :: "string list \<Rightarrow> string \<Rightarrow> string list" where
  "setAdd xs x = (if x \<in> set xs then xs else xs @ [x])"

text \<open>
  Errors: \<^verbatim>\<open>new Error(message)\<close> carries its message; reading a property of
  \<^verbatim>\<open>undefined\<close> raises a \<^verbatim>\<open>TypeError\<close>.
\<close>

datatype error = Error string | TypeError

section \<open>Property reads\<close>

text \<open>
  The type maps and the registry's \<^verbatim>\<open>collections\<close> are plain objects, so a read
  \<^verbatim>\<open>object[key]\<close> that finds no own property goes on to \<^verbatim>\<open>Object.prototype\<close>. The
  names below are its members (the standard ones and those of Annex B). A read gives
  \<^verbatim>\<open>undefined\<close> (\<open>Absent\<close>), the value of an own property, or the inherited member of
  that name, which is a function, or for \<^verbatim>\<open>__proto__\<close> the prototype object; either is
  truthy and has no property \<^verbatim>\<open>pkIndex\<close>.
\<close>

datatype 'a property = Absent | Own 'a | Inherited string

definition objectPrototypeKeys :: "string list" where
  "objectPrototypeKeys =
     [''constructor'', ''hasOwnProperty'', ''isPrototypeOf'', ''propertyIsEnumerable'',
      ''toLocaleString'', ''toString'', ''valueOf'', ''__proto__'',
      ''__defineGetter__'', ''__defineSetter__'', ''__lookupGetter__'', ''__lookupSetter__'']"

definition propertyRead :: "(string \<rightharpoonup> 'a) \<Rightarrow> string \<Rightarrow> 'a property" where
  "propertyRead object key =
     (case object key of
        Some v \<Rightarrow> Own v
      | None \<Rightarrow> if key \<in> set objectPrototypeKeys then Inherited key else Absent)"

text \<open>
  What a template literal prints for an inherited member: the source text of a built-in
  function, as Node prints it (\<^verbatim>\<open>constructor\<close> is the function \<^verbatim>\<open>Object\<close>), and
  \<^verbatim>\<open>[object Object]\<close> for the prototype object.
\<close>

definition inheritedText :: "string \<Rightarrow> string" where
  "inheritedText key =
     (if key = ''__proto__'' then ''[object Object]''
      else ''function '' @ (if key = ''constructor'' then ''Object'' else key) @
           ''() { [native code] }'')"

section \<open>Strings\<close>

text \<open>
  A template literal prints \<^verbatim>\<open>undefined\<close> as the text \<^verbatim>\<open>undefined\<close>, a string as
  itself.
\<close>

fun template :: "string property \<Rightarrow> string" where
  "template Absent = ''undefined''"
| "template (Own s) = s"
| "template (Inherited key) = inheritedText key"

text \<open>A text between single quotes, as in \<^verbatim>\<open>'${alias}'\<close>.\<close>

definition quoted :: "string \<Rightarrow> string" where
  "quoted s = [CHR 0x27] @ s @ [CHR 0x27]"

text \<open>\<^verbatim>\<open>Array.prototype.join\<close> and \<^verbatim>\<open>s.split('\n')\<close>.\<close>

fun join :: "string \<Rightarrow> string list \<Rightarrow> string" where
  "join sep [] = []"
| "join sep [x] = x"
| "join sep (x # y # ys) = x @ sep @ join sep (y # ys)"

fun splitLines :: "string \<Rightarrow> string list" where
  "splitLines [] = [[]]"
| "splitLines (c # cs) =
     (if c = CHR 0x0A then [] # splitLines cs
      else (case splitLines cs of
              [] \<Rightarrow> [[c]]
            | l # ls \<Rightarrow> (c # l) # ls))"

definition indent :: "string \<Rightarrow> string" where
  "indent s = join ''\<newline>'' (map (\<lambda>l. ''    '' @ l) (splitLines s))"

text \<open>
  \<^verbatim>\<open>.filter(line => !!line)\<close> on an array of \<^verbatim>\<open>string | null\<close>: \<^verbatim>\<open>null\<close>
  and the empty string are dropped.
\<close>

fun truthyLines :: "string option list \<Rightarrow> string list" where
  "truthyLines [] = []"
| "truthyLines (None # ls) = truthyLines ls"
| "truthyLines (Some l # ls) = (if l = [] then truthyLines ls else l # truthyLines ls)"

definition inIndentedBlock :: "string list \<Rightarrow> string option" where
  "inIndentedBlock bodyLines =
     (if bodyLines = [] then None
      else Some (''{\<newline>'' @ indent (join ''\<newline>'' bodyLines) @ ''\<newline>}''))"

text \<open>
  Modelled from the spec: \<^verbatim>\<open>upperFirst\<close> of \<^verbatim>\<open>./utils\<close>, which is not among the
  sources. The spec has the declaration header start with "the collection name with its
  first character uppercased"; the tests expect \<^verbatim>\<open>userProfile\<close> to become
  \<^verbatim>\<open>UserProfile\<close>.
\<close>

definition upperChar :: "char \<Rightarrow> char" where
  "upperChar c =
     (case map_of (zip ''abcdefghijklmnopqrstuvwxyz'' ''ABCDEFGHIJKLMNOPQRSTUVWXYZ'') c of
        None \<Rightarrow> c
      | Some u \<Rightarrow> u)"

fun upperFirst :: "string \<Rightarrow> string" where
  "upperFirst [] = []"
| "upperFirst (c # cs) = upperChar c # cs"

section \<open>The type map\<close>

definition DEFAULT_FIELD_TYPE_MAP :: "string \<rightharpoonup> string" where
  "DEFAULT_FIELD_TYPE_MAP = map_of
     [(''string'', ''string''),
      (''text'', ''string''),
      (''json'', ''any''),
      (''datetime'', ''Date''),
      (''timestamp'', ''number''),
      (''boolean'', ''boolean''),
      (''float'', ''number''),
      (''int'', ''number'')]"

definition unresolvedTypeMessage :: "string \<Rightarrow> string \<Rightarrow> string \<Rightarrow> string" where
  "unresolvedTypeMessage storexFieldType collectionName fieldName =
     ''Could not translate type '' @ quoted storexFieldType @ '' of field '' @
     quoted (collectionName @ ''.'' @ fieldName) @ '' to TypeScript type. '' @
     ''Please use the 'fieldTypeMap' option for custom fields''"

text \<open>
  \<^verbatim>\<open>getTypescriptFieldType\<close>, the same text in both snapshots. The collection
  definition and the field name, which the source reads from its options object, are
  arguments. \<^verbatim>\<open>options.fieldTypeMap || DEFAULT_FIELD_TYPE_MAP\<close> selects a whole table: an
  object is truthy. \<open>effectiveTypeMap\<close> is the own properties of that table, and
  \<^verbatim>\<open>fieldTypeMap[key]\<close> is a property read of it. \<^verbatim>\<open>!typescriptFieldType\<close> holds of
  \<^verbatim>\<open>undefined\<close> and of the empty string, and of no inherited member. The result
  \<open>Inr Absent\<close> is the returned value \<^verbatim>\<open>undefined\<close>.
\<close>

definition effectiveTypeMap :: "'a options_scheme \<Rightarrow> (string \<rightharpoonup> string)" where
  "effectiveTypeMap opts =
     (case fieldTypeMap opts of None \<Rightarrow> DEFAULT_FIELD_TYPE_MAP | Some m \<Rightarrow> m)"

definition getTypescriptFieldType ::
  "collectionField \<Rightarrow> 'a options_scheme \<Rightarrow> collectionDefinition \<Rightarrow> string \<Rightarrow> error + string property"
where
  "getTypescriptFieldType fieldDefinition opts collectionDef fieldName =
     (let fieldTypeMap = effectiveTypeMap opts;
          storexFieldType = type fieldDefinition
      in if storexFieldType = ''auto-pk''
         then Inr (propertyRead fieldTypeMap (autoPkKey (autoPkType opts)))
         else (let typescriptFieldType = propertyRead fieldTypeMap storexFieldType
               in if typescriptFieldType = Absent \<or> typescriptFieldType = Own []
                  then Inl (Error (unresolvedTypeMessage storexFieldType (name collectionDef) fieldName))
                  else Inr typescriptFieldType))"

section \<open>Primary key, fields and relationships\<close>

text \<open>
  \<^verbatim>\<open>generateTypescriptOptionalPk\<close> of \<^verbatim>\<open>ts/index.ts\<close>. The message prints the
  definition object itself, which a template literal renders as \<^verbatim>\<open>[object Object]\<close>.
\<close>

definition pkType :: "'a options_scheme \<Rightarrow> string property" where
  "pkType opts =
     (if autoPkType opts \<noteq> AutoPkGeneric
      then propertyRead DEFAULT_FIELD_TYPE_MAP (autoPkKey (autoPkType opts))
      else Own ''number | string'')"

definition generateTypescriptOptionalPk ::
  "collectionDefinition \<Rightarrow> 'a options_scheme \<Rightarrow> error + string"
where
  "generateTypescriptOptionalPk collectionDef opts =
     (case pkIndex collectionDef of
        PkOther \<Rightarrow> Inl (Error ''Unsupported pkIndex found in collection [object Object]'')
      | PkField pk \<Rightarrow>
          Inr (''( WithPk extends true ? { '' @ pk @ '' : '' @ template (pkType opts) @
               '' } : {} )''))"

text \<open>The same function in the snapshot with \<^verbatim>\<open>skipTypes\<close>: the segment is not gated.\<close>

definition generateTypescriptOptionalPk_skip ::
  "collectionDefinition \<Rightarrow> 'a options_scheme \<Rightarrow> error + string"
where
  "generateTypescriptOptionalPk_skip collectionDef opts =
     (case pkIndex collectionDef of
        PkOther \<Rightarrow> Inl (Error ''Unsupported pkIndex found in collection [object Object]'')
      | PkField pk \<Rightarrow> Inr (''{ '' @ pk @ '' : '' @ template (pkType opts) @ '' }''))"

text \<open>
  \<^verbatim>\<open>generateTypescriptField\<close> of \<^verbatim>\<open>ts/index.ts\<close>; \<open>Inr None\<close> is the returned
  \<^verbatim>\<open>null\<close>.
\<close>

definition fieldLine :: "string \<Rightarrow> collectionField \<Rightarrow> string property \<Rightarrow> string" where
  "fieldLine fieldName fieldDefinition t =
     fieldName @ (if optional fieldDefinition then ''?'' else []) @ '' : '' @ template t"

definition generateTypescriptField ::
  "collectionField \<Rightarrow> 'a options_scheme \<Rightarrow> collectionDefinition \<Rightarrow> string \<Rightarrow> error + string option"
where
  "generateTypescriptField fieldDefinition opts collectionDef fieldName =
     (if type fieldDefinition = ''foreign-key'' then Inr None
      else if pkIndex collectionDef = PkField fieldName then Inr None
      else (case getTypescriptFieldType fieldDefinition opts collectionDef fieldName of
              Inl e \<Rightarrow> Inl e
            | Inr t \<Rightarrow> Inr (Some (fieldLine fieldName fieldDefinition t))))"

text \<open>
  \<^verbatim>\<open>generateTypescriptField\<close> of the snapshot with \<^verbatim>\<open>skipTypes\<close>:
  \<^verbatim>\<open>options.skipTypes && options.skipTypes.includes(fieldDefinition.type)\<close> is asked
  after the foreign-key test and before the primary-key test.
\<close>

definition generateTypescriptField_skip ::
  "collectionField \<Rightarrow> 'a skipOptions_scheme \<Rightarrow> collectionDefinition \<Rightarrow> string \<Rightarrow> error + string option"
where
  "generateTypescriptField_skip fieldDefinition opts collectionDef fieldName =
     (if type fieldDefinition = ''foreign-key'' then Inr None
      else if (case skipTypes opts of None \<Rightarrow> False
               | Some ts \<Rightarrow> type fieldDefinition \<in> set ts) then Inr None
      else if pkIndex collectionDef = PkField fieldName then Inr None
      else (case getTypescriptFieldType fieldDefinition opts collectionDef fieldName of
              Inl e \<Rightarrow> Inl e
            | Inr t \<Rightarrow> Inr (Some (fieldLine fieldName fieldDefinition t))))"

text \<open>\<^verbatim>\<open>generateTypescriptRelationship\<close> and \<^verbatim>\<open>generateTypescriptReverseRelationship\<close>.\<close>

definition unsupportedRelationshipMessage :: "string \<Rightarrow> string" where
  "unsupportedRelationshipMessage collectionName =
     ''Unsupported relationship type detected in collection '' @ collectionName"

definition unsupportedReverseRelationshipMessage :: "string \<Rightarrow> string" where
  "unsupportedReverseRelationshipMessage collectionName =
     ''Unsupported reverse relationship type detected in collection '' @ collectionName"

definition generateTypescriptRelationship ::
  "relationship \<Rightarrow> 'a options_scheme \<Rightarrow> collectionDefinition \<Rightarrow> error + string option"
where
  "generateTypescriptRelationship rel opts collectionDef =
     (case rel of
        ChildOf r \<Rightarrow>
          (let condition = quoted (relAlias r) @ '' extends Relationships'';
               targetCollectionIdentifier = upperFirst (targetCollection r);
               autoPkType' = propertyRead DEFAULT_FIELD_TYPE_MAP (autoPkKey (autoPkType opts))
           in Inr (Some (relAlias r @ '' : '' @ condition @ '' ? '' @
                         targetCollectionIdentifier @ '' : '' @ template autoPkType')))
      | Connects a b \<Rightarrow> Inr None
      | OtherRelationship \<Rightarrow>
          Inl (Error (unsupportedRelationshipMessage (name collectionDef))))"

definition generateTypescriptReverseRelationship ::
  "relationship \<Rightarrow> 'a options_scheme \<Rightarrow> collectionDefinition \<Rightarrow> error + string option"
where
  "generateTypescriptReverseRelationship reverseRelationship opts collectionDef =
     (case reverseRelationship of
        ChildOf r \<Rightarrow>
          (let alias = reverseAlias r;
               sourceCollectionIdentifier = upperFirst (sourceCollection r);
               suffix = (if single r then '' | null'' else ''[]'')
           in Inr (Some (''( '' @ quoted alias @ '' extends ReverseRelationships ? { '' @
                         alias @ '' : '' @ sourceCollectionIdentifier @ suffix @
                         '' } : {} )'')))
      | Connects a b \<Rightarrow> Inr None
      | OtherRelationship \<Rightarrow>
          Inl (Error (unsupportedReverseRelationshipMessage (name collectionDef))))"

section \<open>Declaration header, declaration, imports and the batch\<close>

text \<open>
  The two loops of \<^verbatim>\<open>generateTypescriptInterfaceParameters\<close>. Each walks its list,
  adds the referenced collection to the context, pushes the quoted alias, writes a warning
  for a connects relationship and throws for any other relationship; the state at the
  throw is returned with the error.
\<close>

definition connectsWarning :: "string \<Rightarrow> string" where
  "connectsWarning collectionName =
     ''Warning: 'connects' relationships are not supported yet, skipping one in collection '' @
     collectionName"

definition reverseConnectsWarning :: "string \<Rightarrow> string \<Rightarrow> string \<Rightarrow> string" where
  "reverseConnectsWarning collectionName a b =
     ''Warning: 'connects' reverse relationships are not supported yet, skipping one in collection '' @
     collectionName @ '' '' @ ''('' @ a @ '' <-> '' @ b @ '')''"

fun relationshipFieldsLoop ::
  "string \<Rightarrow> relationship list \<Rightarrow> string list \<Rightarrow> jsState \<Rightarrow> (error + string list) \<times> jsState"
where
  "relationshipFieldsLoop collectionName [] relationshipFields s = (Inr relationshipFields, s)"
| "relationshipFieldsLoop collectionName (ChildOf r # rs) relationshipFields s =
     relationshipFieldsLoop collectionName rs (relationshipFields @ [quoted (relAlias r)])
       (s\<lparr>referencedImports := setAdd (referencedImports s) (targetCollection r)\<rparr>)"
| "relationshipFieldsLoop collectionName (Connects a b # rs) relationshipFields s =
     relationshipFieldsLoop collectionName rs relationshipFields
       (s\<lparr>console := console s @ [connectsWarning collectionName]\<rparr>)"
| "relationshipFieldsLoop collectionName (OtherRelationship # rs) relationshipFields s =
     (Inl (Error (unsupportedRelationshipMessage collectionName)), s)"

fun reverseRelationshipFieldsLoop ::
  "string \<Rightarrow> relationship list \<Rightarrow> string list \<Rightarrow> jsState \<Rightarrow> (error + string list) \<times> jsState"
where
  "reverseRelationshipFieldsLoop collectionName [] reverseRelationshipFields s =
     (Inr reverseRelationshipFields, s)"
| "reverseRelationshipFieldsLoop collectionName (ChildOf r # rs) reverseRelationshipFields s =
     reverseRelationshipFieldsLoop collectionName rs
       (reverseRelationshipFields @ [quoted (reverseAlias r)])
       (s\<lparr>referencedImports := setAdd (referencedImports s) (sourceCollection r)\<rparr>)"
| "reverseRelationshipFieldsLoop collectionName (Connects a b # rs) reverseRelationshipFields s =
     reverseRelationshipFieldsLoop collectionName rs reverseRelationshipFields
       (s\<lparr>console := console s @ [reverseConnectsWarning collectionName a b]\<rparr>)"
| "reverseRelationshipFieldsLoop collectionName (OtherRelationship # rs) reverseRelationshipFields s =
     (Inl (Error (unsupportedReverseRelationshipMessage collectionName @ '' '')), s)"

text \<open>\<^verbatim>\<open>x || []\<close> and \<^verbatim>\<open>Object.values(x || {})\<close>.\<close>

definition forwardRelationships :: "collectionDefinition \<Rightarrow> relationship list" where
  "forwardRelationships collectionDef =
     (case relationships collectionDef of None \<Rightarrow> [] | Some rs \<Rightarrow> rs)"

definition reverseRelationships :: "collectionDefinition \<Rightarrow> relationship list" where
  "reverseRelationships collectionDef =
     (case reverseRelationshipsByAlias collectionDef of None \<Rightarrow> [] | Some rs \<Rightarrow> map snd rs)"

definition parameterClause :: "string list \<Rightarrow> string list \<Rightarrow> string" where
  "parameterClause relationshipFields reverseRelationshipFields =
     ''<'' @
     join '', ''
       ([''WithPk extends boolean = true'',
         ''Relationships extends '' @ join '' | '' relationshipFields @ '' = null''] @
        (if length reverseRelationshipFields > 1
         then [''ReverseRelationships extends '' @ join '' | '' reverseRelationshipFields @
               '' = null'']
         else []))
     @ ''>''"

definition generateTypescriptInterfaceParameters ::
  "collectionDefinition \<Rightarrow> jsState \<Rightarrow> (error + string) \<times> jsState"
where
  "generateTypescriptInterfaceParameters collectionDef s =
     (if forwardRelationships collectionDef = [] \<and> reverseRelationships collectionDef = []
      then (Inr ''<WithPk extends boolean = true>'', s)
      else (case relationshipFieldsLoop (name collectionDef)
                   (forwardRelationships collectionDef) [] s of
              (Inl e, s1) \<Rightarrow> (Inl e, s1)
            | (Inr relationshipFields, s1) \<Rightarrow>
                (case reverseRelationshipFieldsLoop (name collectionDef)
                        (reverseRelationships collectionDef) [] s1 of
                   (Inl e, s2) \<Rightarrow> (Inl e, s2)
                 | (Inr reverseRelationshipFields, s2) \<Rightarrow>
                     (Inr (parameterClause (relationshipFields @ [''null''])
                             (reverseRelationshipFields @ [''null''])), s2))))"

text \<open>\<^verbatim>\<open>xs.map(f)\<close> where \<^verbatim>\<open>f\<close> may throw: the first error ends the map.\<close>

fun mapResult :: "('a \<Rightarrow> error + 'b) \<Rightarrow> 'a list \<Rightarrow> error + 'b list" where
  "mapResult f [] = Inr []"
| "mapResult f (x # xs) =
     (case f x of
        Inl e \<Rightarrow> Inl e
      | Inr y \<Rightarrow> (case mapResult f xs of Inl e \<Rightarrow> Inl e | Inr ys \<Rightarrow> Inr (y # ys)))"

text \<open>\<^verbatim>\<open>...(x ? [x] : [])\<close> for \<^verbatim>\<open>x : string | null\<close>.\<close>

definition ifTruthy :: "string option \<Rightarrow> string list" where
  "ifTruthy x = truthyLines [x]"

text \<open>
  \<^verbatim>\<open>Object.entries(collectionDefinition.fields).map(...)\<close> with the field emitter, before
  the filter.
\<close>

definition fieldLinesOf :: "collectionDefinition \<Rightarrow> 'a options_scheme \<Rightarrow> error + string option list" where
  "fieldLinesOf collectionDef opts =
     mapResult (\<lambda>(fieldName, fieldDefinition).
                  generateTypescriptField fieldDefinition opts collectionDef fieldName)
       (collFields collectionDef)"

text \<open>
  \<^verbatim>\<open>generateTypescriptInterface\<close>. The batch passes
  \<^verbatim>\<open>storageRegistry.collections[collectionName]\<close>. For \<^verbatim>\<open>undefined\<close> the first property
  read, \<^verbatim>\<open>collectionDefinition.pkIndex\<close> in \<^verbatim>\<open>generateTypescriptOptionalPk\<close>, raises a
  \<^verbatim>\<open>TypeError\<close>. For an inherited member that read gives \<^verbatim>\<open>undefined\<close>, which is not
  a string, so the same function throws its error, with the member printed in the message.
\<close>

definition generateTypescriptInterface ::
  "collectionDefinition property \<Rightarrow> 'a options_scheme \<Rightarrow> jsState \<Rightarrow> (error + string) \<times> jsState"
where
  "generateTypescriptInterface collectionDefinition opts s =
     (case collectionDefinition of
        Absent \<Rightarrow> (Inl TypeError, s)
      | Inherited key \<Rightarrow>
          (Inl (Error (''Unsupported pkIndex found in collection '' @ inheritedText key)), s)
      | Own collectionDef \<Rightarrow>
     (case generateTypescriptOptionalPk collectionDef opts of
        Inl e \<Rightarrow> (Inl e, s)
      | Inr pkLine \<Rightarrow>
     (case fieldLinesOf collectionDef opts of
        Inl e \<Rightarrow> (Inl e, s)
      | Inr fieldLines \<Rightarrow>
     (case mapResult (\<lambda>rel. generateTypescriptRelationship rel opts collectionDef)
             (forwardRelationships collectionDef) of
        Inl e \<Rightarrow> (Inl e, s)
      | Inr relationshipLines \<Rightarrow>
     (case mapResult (\<lambda>rel. generateTypescriptReverseRelationship rel opts collectionDef)
             (reverseRelationships collectionDef) of
        Inl e \<Rightarrow> (Inl e, s)
      | Inr reverseLines \<Rightarrow>
     (let fieldsBlock = inIndentedBlock (truthyLines fieldLines);
          relationshipsBlock = inIndentedBlock (truthyLines relationshipLines);
          body = join '' &\<newline>''
                   ([pkLine] @ ifTruthy fieldsBlock @ ifTruthy relationshipsBlock @
                    truthyLines reverseLines)
      in (case generateTypescriptInterfaceParameters collectionDef s of
            (Inl e, s') \<Rightarrow> (Inl e, s')
          | (Inr interfaceParameters, s') \<Rightarrow>
              (let firstLine = ''export type '' @ upperFirst (name collectionDef) @
                               interfaceParameters @ '' =''
               in (Inr (firstLine @ ''\<newline>'' @ indent body), s')))))))))"

text \<open>\<^verbatim>\<open>generateTypescriptImports\<close>; the set is given in its iteration order.\<close>

definition importLine :: "(string \<Rightarrow> string) \<Rightarrow> string \<Rightarrow> string" where
  "importLine generateImport' collectionName =
     ''import { '' @ upperFirst collectionName @ '' } from '' @
     quoted (generateImport' collectionName) @ '' ''"

definition generateTypescriptImports :: "string list \<Rightarrow> 'a options_scheme \<Rightarrow> string option" where
  "generateTypescriptImports collectionNames opts =
     (case generateImport opts of
        None \<Rightarrow> None
      | Some generateImport' \<Rightarrow>
          if collectionNames = [] then None
          else Some (join ''\<newline>''
                 (truthyLines
                    (map (\<lambda>collectionName.
                            if collectionName \<notin> set (collections opts)
                            then Some (importLine generateImport' collectionName)
                            else None)
                       collectionNames))))"

text \<open>
  \<^verbatim>\<open>generateTypescriptInterfaces\<close>: a fresh context, one declaration per requested
  name in order, then the imports.
\<close>

fun interfacesLoop ::
  "string list \<Rightarrow> 'a options_scheme \<Rightarrow> jsState \<Rightarrow> (error + string list) \<times> jsState"
where
  "interfacesLoop [] opts s = (Inr [], s)"
| "interfacesLoop (collectionName # rest) opts s =
     (case generateTypescriptInterface
             (propertyRead (storageRegistry s) collectionName) opts s of
        (Inl e, s') \<Rightarrow> (Inl e, s')
      | (Inr decl, s') \<Rightarrow>
          (case interfacesLoop rest opts s' of
             (Inl e, s'') \<Rightarrow> (Inl e, s'')
           | (Inr decls, s'') \<Rightarrow> (Inr (decl # decls), s'')))"

definition generateTypescriptInterfaces ::
  "jsState \<Rightarrow> 'a options_scheme \<Rightarrow> (error + string) \<times> jsState"
where
  "generateTypescriptInterfaces s opts =
     (case interfacesLoop (collections opts) opts (s\<lparr>referencedImports := []\<rparr>) of
        (Inl e, s') \<Rightarrow> (Inl e, s')
      | (Inr decls, s') \<Rightarrow>
          (let interfaces = join ''\<newline>\<newline>'' decls @ ''\<newline>'';
               imports = generateTypescriptImports (referencedImports s') opts
           in (Inr (join ''\<newline>\<newline>'' (ifTruthy imports @ [interfaces])), s')))"

section \<open>Notions the properties are stated with\<close>

text \<open>
  The collections one collection definition refers to, in the order the header loops
  meet them: the targets of its forward child-of relationships, then the sources of its
  reverse child-of relationships.
\<close>

fun childOfTargets :: "relationship list \<Rightarrow> string list" where
  "childOfTargets [] = []"
| "childOfTargets (ChildOf r # rs) = targetCollection r # childOfTargets rs"
| "childOfTargets (Connects a b # rs) = childOfTargets rs"
| "childOfTargets (OtherRelationship # rs) = childOfTargets rs"

fun childOfSources :: "relationship list \<Rightarrow> string list" where
  "childOfSources [] = []"
| "childOfSources (ChildOf r # rs) = sourceCollection r # childOfSources rs"
| "childOfSources (Connects a b # rs) = childOfSources rs"
| "childOfSources (OtherRelationship # rs) = childOfSources rs"

definition referencedNames :: "collectionDefinition \<Rightarrow> string list" where
  "referencedNames collectionDef =
     childOfTargets (forwardRelationships collectionDef) @
     childOfSources (reverseRelationships collectionDef)"

text \<open>The references of a whole batch, in request order.\<close>

definition batchReferences :: "(string \<rightharpoonup> collectionDefinition) \<Rightarrow> string list \<Rightarrow> string list" where
  "batchReferences registry requested =
     concat (map (\<lambda>collectionName.
                    case registry collectionName of
                      None \<Rightarrow> []
                    | Some collectionDef \<Rightarrow> referencedNames collectionDef)
               requested)"

text \<open>Every name once, at the place of its first occurrence.\<close>

fun firstOccurrences :: "string list \<Rightarrow> string list" where
  "firstOccurrences [] = []"
| "firstOccurrences (x # xs) = x # filter (\<lambda>y. y \<noteq> x) (firstOccurrences xs)"

text \<open>The aliases the two expansion switches range over.\<close>

fun childOfAliases :: "relationship list \<Rightarrow> string list" where
  "childOfAliases [] = []"
| "childOfAliases (ChildOf r # rs) = relAlias r # childOfAliases rs"
| "childOfAliases (Connects a b # rs) = childOfAliases rs"
| "childOfAliases (OtherRelationship # rs) = childOfAliases rs"

fun childOfReverseAliases :: "relationship list \<Rightarrow> string list" where
  "childOfReverseAliases [] = []"
| "childOfReverseAliases (ChildOf r # rs) = reverseAlias r # childOfReverseAliases rs"
| "childOfReverseAliases (Connects a b # rs) = childOfReverseAliases rs"
| "childOfReverseAliases (OtherRelationship # rs) = childOfReverseAliases rs"

text \<open>The warnings a list of relationships causes in each header loop.\<close>

fun connectsWarnings :: "string \<Rightarrow> relationship list \<Rightarrow> string list" where
  "connectsWarnings collectionName [] = []"
| "connectsWarnings collectionName (Connects a b # rs) =
     connectsWarning collectionName # connectsWarnings collectionName rs"
| "connectsWarnings collectionName (ChildOf r # rs) = connectsWarnings collectionName rs"
| "connectsWarnings collectionName (OtherRelationship # rs) = connectsWarnings collectionName rs"

fun reverseConnectsWarnings :: "string \<Rightarrow> relationship list \<Rightarrow> string list" where
  "reverseConnectsWarnings collectionName [] = []"
| "reverseConnectsWarnings collectionName (Connects a b # rs) =
     reverseConnectsWarning collectionName a b # reverseConnectsWarnings collectionName rs"
| "reverseConnectsWarnings collectionName (ChildOf r # rs) =
     reverseConnectsWarnings collectionName rs"
| "reverseConnectsWarnings collectionName (OtherRelationship # rs) =
     reverseConnectsWarnings collectionName rs"

section \<open>Example inputs\<close>

text \<open>
  The collections of the test "should generate childOf relationship fields": \<^verbatim>\<open>bar\<close> is a
  child of \<^verbatim>\<open>foo\<close>, as the registry presents them after initialisation; \<^verbatim>\<open>baz\<close> has a
  connects relationship besides.
\<close>

definition barChildOfFoo :: childOf where
  "barChildOfFoo =
     \<lparr>relAlias = ''foo'', reverseAlias = ''bars'', single = False,
      targetCollection = ''foo'', sourceCollection = ''bar''\<rparr>"

definition exampleFoo :: collectionDefinition where
  "exampleFoo =
     \<lparr>name = ''foo'', pkIndex = PkField ''id'',
      collFields = [(''id'', \<lparr>type = ''auto-pk'', optional = False\<rparr>),
                    (''spam'', \<lparr>type = ''string'', optional = False\<rparr>)],
      relationships = Some [],
      reverseRelationshipsByAlias = Some [(''bars'', ChildOf barChildOfFoo)]\<rparr>"

definition exampleBar :: collectionDefinition where
  "exampleBar =
     \<lparr>name = ''bar'', pkIndex = PkField ''id'',
      collFields = [(''id'', \<lparr>type = ''auto-pk'', optional = False\<rparr>),
                    (''eggs'', \<lparr>type = ''string'', optional = True\<rparr>),
                    (''foo'', \<lparr>type = ''foreign-key'', optional = False\<rparr>)],
      relationships = Some [ChildOf barChildOfFoo],
      reverseRelationshipsByAlias = Some []\<rparr>"

definition exampleBaz :: collectionDefinition where
  "exampleBaz =
     \<lparr>name = ''baz'', pkIndex = PkField ''id'',
      collFields = [(''id'', \<lparr>type = ''auto-pk'', optional = False\<rparr>)],
      relationships = Some [Connects ''foo'' ''bar'', ChildOf barChildOfFoo],
      reverseRelationshipsByAlias = None\<rparr>"

definition exampleBroken :: collectionDefinition where
  "exampleBroken =
     \<lparr>name = ''broken'', pkIndex = PkField ''id'',
      collFields = [(''id'', \<lparr>type = ''auto-pk'', optional = False\<rparr>)],
      relationships = Some [OtherRelationship],
      reverseRelationshipsByAlias = None\<rparr>"

text \<open>The collection of the test "should generate interfaces for simple collections".\<close>

definition exampleTest :: collectionDefinition where
  "exampleTest =
     \<lparr>name = ''test'', pkIndex = PkField ''id'',
      collFields = [(''id'', \<lparr>type = ''auto-pk'', optional = False\<rparr>),
                    (''fieldString'', \<lparr>type = ''string'', optional = False\<rparr>)],
      relationships = None,
      reverseRelationshipsByAlias = None\<rparr>"

definition exampleRegistry :: "string \<rightharpoonup> collectionDefinition" where
  "exampleRegistry =
     map_of [(''foo'', exampleFoo), (''bar'', exampleBar), (''baz'', exampleBaz),
             (''broken'', exampleBroken), (''test'', exampleTest)]"

definition exampleState :: jsState where
  "exampleState = \<lparr>storageRegistry = exampleRegistry, referencedImports = [], console = []\<rparr>"

definition exampleOptions :: "autoPk \<Rightarrow> string list \<Rightarrow> options" where
  "exampleOptions strategy requested =
     \<lparr>autoPkType = strategy, fieldTypeMap = None, collections = requested,
      generateImport = Some (\<lambda>collectionName. ''./'' @ collectionName)\<rparr>"

definition exampleSkipOptions :: "string list option \<Rightarrow> skipOptions" where
  "exampleSkipOptions skip =
     \<lparr>autoPkType = AutoPkInt, fieldTypeMap = None, collections = [''test''],
      generateImport = None, skipTypes = skip\<rparr>"

definition mediaOnlyOptions :: options where
  "mediaOnlyOptions =
     \<lparr>autoPkType = AutoPkInt, fieldTypeMap = Some [''media'' \<mapsto> ''string''],
      collections = [''foo''], generateImport = None\<rparr>"

section \<open>The type-map resolver\<close>

lemma unresolvedTypeMessage_names:
  "\<exists>pre post. unresolvedTypeMessage k c f = pre @ c @ ''.'' @ f @ post"
  unfolding unresolvedTypeMessage_def quoted_def
  by (metis append.assoc)

lemma autoPkKey_not_inherited: "autoPkKey strategy \<notin> set objectPrototypeKeys"
  by (cases strategy) (simp_all add: objectPrototypeKeys_def)

lemma propertyRead_autoPkKey:
  "propertyRead object (autoPkKey strategy) =
     (case object (autoPkKey strategy) of None \<Rightarrow> Absent | Some v \<Rightarrow> Own v)"
  by (simp add: propertyRead_def autoPkKey_not_inherited split: option.splits)

lemma propertyRead_Own: "propertyRead object key = Own v \<longleftrightarrow> object key = Some v"
  by (simp add: propertyRead_def split: option.splits)

text \<open>
  Claim C1, as the code has it. For a field whose kind is not \<^verbatim>\<open>auto-pk\<close> the resolver
  consults exactly one table: the caller's mapping when one is supplied, the built-in
  default table only when none is supplied. It returns that table's entry for the kind
  when the entry is present and not the empty string. It fails exactly when the entry is
  the empty string, or the table has no entry for the kind and the kind is not the name
  of a member of \<^verbatim>\<open>Object.prototype\<close>; the error is the unresolved-type error, whose
  message contains \<^verbatim>\<open>collection.field\<close>. For a kind without an entry that is such a
  name (\<^verbatim>\<open>constructor\<close>, \<^verbatim>\<open>toString\<close>, ...) the read finds the inherited member, and
  the resolver returns it.
\<close>

theorem resolver_selects_one_table:
  assumes "type fd \<noteq> ''auto-pk''"
    and "table = (case fieldTypeMap opts of None \<Rightarrow> DEFAULT_FIELD_TYPE_MAP | Some m \<Rightarrow> m)"
  shows "(\<forall>t. table (type fd) = Some t \<and> t \<noteq> [] \<longrightarrow>
            getTypescriptFieldType fd opts cd f = Inr (Own t))
       \<and> ((\<exists>e. getTypescriptFieldType fd opts cd f = Inl e) \<longleftrightarrow>
            (table (type fd) = None \<and> type fd \<notin> set objectPrototypeKeys)
            \<or> table (type fd) = Some [])
       \<and> (table (type fd) = None \<and> type fd \<in> set objectPrototypeKeys \<longrightarrow>
            getTypescriptFieldType fd opts cd f = Inr (Inherited (type fd)))
       \<and> (\<forall>e. getTypescriptFieldType fd opts cd f = Inl e \<longrightarrow>
            e = Error (unresolvedTypeMessage (type fd) (name cd) f)
            \<and> (\<exists>pre post. unresolvedTypeMessage (type fd) (name cd) f
                   = pre @ name cd @ ''.'' @ f @ post))"
proof -
  have table: "effectiveTypeMap opts = table"
    using assms(2) by (simp add: effectiveTypeMap_def)
  show ?thesis
  proof (cases "table (type fd)")
    case None
    with assms(1) table unresolvedTypeMessage_names [of "type fd" "name cd" f] show ?thesis
      by (simp add: getTypescriptFieldType_def propertyRead_def Let_def)
  next
    case (Some t)
    with assms(1) table unresolvedTypeMessage_names [of "type fd" "name cd" f] show ?thesis
      by (simp add: getTypescriptFieldType_def propertyRead_def Let_def)
  qed
qed

theorem resolver_selects_one_table_witness:
  "getTypescriptFieldType \<lparr>type = ''media'', optional = False\<rparr> mediaOnlyOptions exampleFoo ''cover''
     = Inr (Own ''string'')
   \<and> getTypescriptFieldType \<lparr>type = ''json'', optional = False\<rparr>
        (exampleOptions AutoPkInt [''foo'']) exampleFoo ''data'' = Inr (Own ''any'')
   \<and> getTypescriptFieldType \<lparr>type = ''media'', optional = False\<rparr>
        (exampleOptions AutoPkInt [''foo'']) exampleFoo ''cover''
        = Inl (Error (unresolvedTypeMessage ''media'' ''foo'' ''cover''))
   \<and> getTypescriptFieldType \<lparr>type = ''constructor'', optional = False\<rparr>
        (exampleOptions AutoPkInt [''foo'']) exampleFoo ''data'' = Inr (Inherited ''constructor'')"
proof -
  note media = resolver_selects_one_table
          [of "\<lparr>type = ''media'', optional = False\<rparr>" "[''media'' \<mapsto> ''string'']"
              mediaOnlyOptions exampleFoo "''cover''"]
  note json = resolver_selects_one_table
          [of "\<lparr>type = ''json'', optional = False\<rparr>" DEFAULT_FIELD_TYPE_MAP
              "exampleOptions AutoPkInt [''foo'']" exampleFoo "''data''"]
  note missing = resolver_selects_one_table
          [of "\<lparr>type = ''media'', optional = False\<rparr>" DEFAULT_FIELD_TYPE_MAP
              "exampleOptions AutoPkInt [''foo'']" exampleFoo "''cover''"]
  note inherited = resolver_selects_one_table
          [of "\<lparr>type = ''constructor'', optional = False\<rparr>" DEFAULT_FIELD_TYPE_MAP
              "exampleOptions AutoPkInt [''foo'']" exampleFoo "''data''"]
  have a: "getTypescriptFieldType \<lparr>type = ''media'', optional = False\<rparr> mediaOnlyOptions
             exampleFoo ''cover'' = Inr (Own ''string'')"
    using media by (simp add: mediaOnlyOptions_def)
  have b: "getTypescriptFieldType \<lparr>type = ''json'', optional = False\<rparr>
        (exampleOptions AutoPkInt [''foo'']) exampleFoo ''data'' = Inr (Own ''any'')"
    using json by (simp add: exampleOptions_def DEFAULT_FIELD_TYPE_MAP_def)
  have "\<exists>e. getTypescriptFieldType \<lparr>type = ''media'', optional = False\<rparr>
        (exampleOptions AutoPkInt [''foo'']) exampleFoo ''cover'' = Inl e"
    using missing
    by (simp add: exampleOptions_def DEFAULT_FIELD_TYPE_MAP_def objectPrototypeKeys_def)
  then have c: "getTypescriptFieldType \<lparr>type = ''media'', optional = False\<rparr>
        (exampleOptions AutoPkInt [''foo'']) exampleFoo ''cover''
        = Inl (Error (unresolvedTypeMessage ''media'' ''foo'' ''cover''))"
    using missing
    by (auto simp: exampleOptions_def exampleFoo_def)
  have d: "getTypescriptFieldType \<lparr>type = ''constructor'', optional = False\<rparr>
        (exampleOptions AutoPkInt [''foo'']) exampleFoo ''data'' = Inr (Inherited ''constructor'')"
    using inherited
    by (simp add: exampleOptions_def DEFAULT_FIELD_TYPE_MAP_def objectPrototypeKeys_def)
  from a b c d show ?thesis by simp
qed

text \<open>
  The claim as stated, with a fallback to the default table for a kind the caller's mapping
  lacks, fails: with the mapping \<^verbatim>\<open>{media: 'string'}\<close> the kind \<^verbatim>\<open>string\<close>, which
  the default table has, is not resolved.
\<close>

theorem resolver_no_fallback_counterexample:
  "DEFAULT_FIELD_TYPE_MAP ''string'' = Some ''string''
   \<and> getTypescriptFieldType \<lparr>type = ''string'', optional = False\<rparr> mediaOnlyOptions exampleFoo ''spam''
       = Inl (Error (unresolvedTypeMessage ''string'' ''foo'' ''spam''))"
  by (simp add: getTypescriptFieldType_def effectiveTypeMap_def mediaOnlyOptions_def
        DEFAULT_FIELD_TYPE_MAP_def exampleFoo_def propertyRead_def objectPrototypeKeys_def)

text \<open>
  The inherited members at work: for the kind \<^verbatim>\<open>constructor\<close> under the default table
  the field emitter prints the function \<^verbatim>\<open>Object\<close> as the type, and a batch that
  requests the collection name \<^verbatim>\<open>constructor\<close>, which the registry does not define,
  fails in the primary-key check.
\<close>

lemma inherited_members_evaluated:
  "generateTypescriptField \<lparr>type = ''constructor'', optional = False\<rparr>
       (exampleOptions AutoPkInt [''foo'']) exampleFoo ''data''
     = Inr (Some ''data : function Object() { [native code] }'')
   \<and> fst (generateTypescriptInterfaces exampleState (exampleOptions AutoPkInt [''constructor'']))
     = Inl (Error ''Unsupported pkIndex found in collection function Object() { [native code] }'')
   \<and> fst (generateTypescriptInterfaces exampleState (exampleOptions AutoPkInt [''missing'']))
     = Inl TypeError"
  by code_simp

text \<open>
  Claim C10. For the kind \<^verbatim>\<open>auto-pk\<close> the resolver returns the entry of the effective
  type map under the strategy key without any check, so it never fails; the entry is
  missing for the strategy \<^verbatim>\<open>generic\<close> under the default map; a missing entry is printed
  as \<^verbatim>\<open>undefined\<close> in the emitted field line; and the scalar branch of a forward child-of
  relationship, read from the default map under the strategy key, is \<^verbatim>\<open>undefined\<close> for
  \<^verbatim>\<open>generic\<close>.
\<close>

theorem autoPk_never_unresolved:
  "(type fd = ''auto-pk'' \<longrightarrow>
      getTypescriptFieldType fd opts cd f
        = Inr (case effectiveTypeMap opts (autoPkKey (autoPkType opts)) of
                 None \<Rightarrow> Absent
               | Some t \<Rightarrow> Own t))
   \<and> (fieldTypeMap opts = None \<and> autoPkType opts = AutoPkGeneric \<longrightarrow>
      effectiveTypeMap opts (autoPkKey (autoPkType opts)) = None)
   \<and> (type fd = ''auto-pk'' \<and> effectiveTypeMap opts (autoPkKey (autoPkType opts)) = None
        \<and> pkIndex cd \<noteq> PkField f \<longrightarrow>
      generateTypescriptField fd opts cd f
        = Inr (Some (f @ (if optional fd then ''?'' else []) @ '' : undefined'')))
   \<and> (autoPkType opts = AutoPkGeneric \<longrightarrow>
      generateTypescriptRelationship (ChildOf r) opts cd
        = Inr (Some (relAlias r @ '' : '' @ quoted (relAlias r) @ '' extends Relationships ? '' @
                     upperFirst (targetCollection r) @ '' : undefined'')))"
proof -
  have strategy: "autoPkKey (autoPkType opts) \<notin> set objectPrototypeKeys"
    by (rule autoPkKey_not_inherited)
  have generic: "''generic'' \<notin> set objectPrototypeKeys"
    using autoPkKey_not_inherited [of AutoPkGeneric] by simp
  show ?thesis
    using strategy generic
    by (simp add: getTypescriptFieldType_def effectiveTypeMap_def generateTypescriptField_def
          generateTypescriptRelationship_def fieldLine_def DEFAULT_FIELD_TYPE_MAP_def Let_def
          propertyRead_def split: option.splits)
qed

theorem autoPk_never_unresolved_witness:
  "getTypescriptFieldType \<lparr>type = ''auto-pk'', optional = False\<rparr>
       (exampleOptions AutoPkGeneric [''foo'']) exampleFoo ''legacyId'' = Inr Absent
   \<and> generateTypescriptField \<lparr>type = ''auto-pk'', optional = False\<rparr>
       (exampleOptions AutoPkGeneric [''foo'']) exampleFoo ''legacyId''
       = Inr (Some ''legacyId : undefined'')
   \<and> generateTypescriptRelationship (ChildOf barChildOfFoo)
       (exampleOptions AutoPkGeneric [''bar'']) exampleBar
       = Inr (Some ''foo : 'foo' extends Relationships ? Foo : undefined'')"
  using autoPk_never_unresolved
          [of "\<lparr>type = ''auto-pk'', optional = False\<rparr>" "exampleOptions AutoPkGeneric [''foo'']"
              exampleFoo "''legacyId''" barChildOfFoo]
        autoPk_never_unresolved
          [of "\<lparr>type = ''auto-pk'', optional = False\<rparr>" "exampleOptions AutoPkGeneric [''bar'']"
              exampleBar "''legacyId''" barChildOfFoo]
  by (simp add: exampleOptions_def exampleFoo_def barChildOfFoo_def quoted_def upperChar_def)

section \<open>The field emitter and the primary-key segment\<close>

text \<open>
  Claim C3. The field emitter with \<^verbatim>\<open>skipTypes\<close> returns nothing when the kind is
  \<^verbatim>\<open>foreign-key\<close>, when the field name is the primary-key field name, or when the kind
  is in the supplied exclusion list; otherwise it returns the one line
  \<^verbatim>\<open>name : type\<close>, with \<^verbatim>\<open>?\<close> after the name exactly when the field is optional and
  the type as the resolver gives it (an error of the resolver is the emitter's error).
  The emitter of \<^verbatim>\<open>ts/index.ts\<close>, whose options have no exclusion list, is the same
  function at an absent list.
\<close>

theorem field_emitter_rules:
  "generateTypescriptField_skip fd opts cd f =
     (if type fd = ''foreign-key''
         \<or> pkIndex cd = PkField f
         \<or> (\<exists>ts. skipTypes opts = Some ts \<and> type fd \<in> set ts)
      then Inr None
      else (case getTypescriptFieldType fd opts cd f of
              Inl e \<Rightarrow> Inl e
            | Inr t \<Rightarrow> Inr (Some (f @ (if optional fd then ''?'' else []) @ '' : '' @ template t))))
   \<and> (skipTypes opts = None \<longrightarrow>
        generateTypescriptField fd opts cd f = generateTypescriptField_skip fd opts cd f)"
  by (auto simp: generateTypescriptField_skip_def generateTypescriptField_def fieldLine_def
        split: option.splits sum.splits)

theorem field_emitter_rules_witness:
  "generateTypescriptField_skip \<lparr>type = ''media'', optional = True\<rparr>
       (exampleSkipOptions (Some [''media''])) exampleFoo ''cover'' = Inr None
   \<and> generateTypescriptField_skip \<lparr>type = ''foreign-key'', optional = False\<rparr>
       (exampleSkipOptions None) exampleBar ''foo'' = Inr None
   \<and> generateTypescriptField_skip \<lparr>type = ''auto-pk'', optional = False\<rparr>
       (exampleSkipOptions None) exampleFoo ''id'' = Inr None
   \<and> generateTypescriptField_skip \<lparr>type = ''string'', optional = True\<rparr>
       (exampleSkipOptions (Some [''media''])) exampleBar ''eggs'' = Inr (Some ''eggs? : string'')
   \<and> generateTypescriptField \<lparr>type = ''string'', optional = False\<rparr>
       (exampleSkipOptions None) exampleFoo ''spam'' = Inr (Some ''spam : string'')"
  using field_emitter_rules
          [of "\<lparr>type = ''media'', optional = True\<rparr>" "exampleSkipOptions (Some [''media''])"
              exampleFoo "''cover''"]
        field_emitter_rules
          [of "\<lparr>type = ''foreign-key'', optional = False\<rparr>" "exampleSkipOptions None"
              exampleBar "''foo''"]
        field_emitter_rules
          [of "\<lparr>type = ''auto-pk'', optional = False\<rparr>" "exampleSkipOptions None"
              exampleFoo "''id''"]
        field_emitter_rules
          [of "\<lparr>type = ''string'', optional = True\<rparr>" "exampleSkipOptions (Some [''media''])"
              exampleBar "''eggs''"]
        field_emitter_rules
          [of "\<lparr>type = ''string'', optional = False\<rparr>" "exampleSkipOptions None"
              exampleFoo "''spam''"]
  by (simp add: exampleSkipOptions_def exampleFoo_def exampleBar_def getTypescriptFieldType_def
        effectiveTypeMap_def DEFAULT_FIELD_TYPE_MAP_def propertyRead_def)

text \<open>
  Claim C4. The type in the primary-key segment is \<^verbatim>\<open>string\<close> for the strategy
  \<^verbatim>\<open>string\<close>, \<^verbatim>\<open>number\<close> for \<^verbatim>\<open>int\<close> and \<^verbatim>\<open>number | string\<close> for
  \<^verbatim>\<open>generic\<close>, in the gated segment of \<^verbatim>\<open>ts/index.ts\<close> and in the plain segment of
  the snapshot with \<^verbatim>\<open>skipTypes\<close>.
\<close>

theorem pk_segment_type:
  "pkIndex cd = PkField pk \<longrightarrow>
     generateTypescriptOptionalPk cd opts
       = Inr (''( WithPk extends true ? { '' @ pk @ '' : '' @
              (case autoPkType opts of
                 AutoPkString \<Rightarrow> ''string''
               | AutoPkInt \<Rightarrow> ''number''
               | AutoPkGeneric \<Rightarrow> ''number | string'') @ '' } : {} )'')
     \<and> generateTypescriptOptionalPk_skip cd opts
       = Inr (''{ '' @ pk @ '' : '' @
              (case autoPkType opts of
                 AutoPkString \<Rightarrow> ''string''
               | AutoPkInt \<Rightarrow> ''number''
               | AutoPkGeneric \<Rightarrow> ''number | string'') @ '' }'')"
  by (cases "autoPkType opts")
     (simp_all add: generateTypescriptOptionalPk_def generateTypescriptOptionalPk_skip_def
        pkType_def DEFAULT_FIELD_TYPE_MAP_def propertyRead_def)

theorem pk_segment_type_witness:
  "generateTypescriptOptionalPk exampleFoo (exampleOptions AutoPkString [''foo''])
     = Inr ''( WithPk extends true ? { id : string } : {} )''
   \<and> generateTypescriptOptionalPk exampleFoo (exampleOptions AutoPkInt [''foo''])
     = Inr ''( WithPk extends true ? { id : number } : {} )''
   \<and> generateTypescriptOptionalPk exampleFoo (exampleOptions AutoPkGeneric [''foo''])
     = Inr ''( WithPk extends true ? { id : number | string } : {} )''
   \<and> generateTypescriptOptionalPk_skip exampleFoo (exampleOptions AutoPkGeneric [''foo''])
     = Inr ''{ id : number | string }''"
  using pk_segment_type [of exampleFoo "''id''" "exampleOptions AutoPkString [''foo'']"]
        pk_segment_type [of exampleFoo "''id''" "exampleOptions AutoPkInt [''foo'']"]
        pk_segment_type [of exampleFoo "''id''" "exampleOptions AutoPkGeneric [''foo'']"]
  by (simp add: exampleFoo_def exampleOptions_def)

section \<open>The relationship emitter\<close>

text \<open>
  Claim C6 asks the unselected branch of a forward child-of field to be the primary-key
  representation type of the chosen strategy. Evaluated for the strategy \<^verbatim>\<open>generic\<close>:
  the relationship emitter prints \<^verbatim>\<open>undefined\<close> there, while the primary-key segment of
  the same collection has \<^verbatim>\<open>number | string\<close>.
\<close>

theorem generic_scalar_branch_undefined:
  "generateTypescriptRelationship (ChildOf barChildOfFoo)
       (exampleOptions AutoPkGeneric [''bar'']) exampleBar
     = Inr (Some ''foo : 'foo' extends Relationships ? Foo : undefined'')
   \<and> generateTypescriptOptionalPk exampleBar (exampleOptions AutoPkGeneric [''bar''])
     = Inr ''( WithPk extends true ? { id : number | string } : {} )''"
  by (simp add: generateTypescriptRelationship_def generateTypescriptOptionalPk_def pkType_def
        exampleOptions_def exampleBar_def barChildOfFoo_def DEFAULT_FIELD_TYPE_MAP_def
        quoted_def upperChar_def Let_def propertyRead_def objectPrototypeKeys_def)

text \<open>
  Claim C7. A reverse child-of relationship gives a conditional sub-block with a field named
  after the reverse alias, of the source collection's type name followed by
  \<^verbatim>\<open> | null\<close> when the relationship is single and by \<^verbatim>\<open>[]\<close> when it is not.
\<close>

theorem reverse_relationship_shape:
  "generateTypescriptReverseRelationship (ChildOf r) opts cd
     = Inr (Some (''( '' @ quoted (reverseAlias r) @ '' extends ReverseRelationships ? { '' @
                  reverseAlias r @ '' : '' @ upperFirst (sourceCollection r) @
                  (if single r then '' | null'' else ''[]'') @ '' } : {} )''))"
  by (simp add: generateTypescriptReverseRelationship_def Let_def)

theorem reverse_relationship_shape_witness:
  "generateTypescriptReverseRelationship (ChildOf barChildOfFoo)
       (exampleOptions AutoPkInt [''foo'']) exampleFoo
     = Inr (Some ''( 'bars' extends ReverseRelationships ? { bars : Bar[] } : {} )'')
   \<and> generateTypescriptReverseRelationship (ChildOf (barChildOfFoo\<lparr>reverseAlias := ''bar'', single := True\<rparr>))
       (exampleOptions AutoPkInt [''foo'']) exampleFoo
     = Inr (Some ''( 'bar' extends ReverseRelationships ? { bar : Bar | null } : {} )'')"
  using reverse_relationship_shape [of barChildOfFoo "exampleOptions AutoPkInt [''foo'']" exampleFoo]
        reverse_relationship_shape
          [of "barChildOfFoo\<lparr>reverseAlias := ''bar'', single := True\<rparr>"
              "exampleOptions AutoPkInt [''foo'']" exampleFoo]
  by (simp add: barChildOfFoo_def quoted_def upperChar_def)

section \<open>The header loops and the registry\<close>

lemma relationshipFieldsLoop_ok:
  "OtherRelationship \<notin> set rs \<Longrightarrow>
   relationshipFieldsLoop n rs acc s =
     (Inr (acc @ map quoted (childOfAliases rs)),
      s\<lparr>referencedImports := foldl setAdd (referencedImports s) (childOfTargets rs),
        console := console s @ connectsWarnings n rs\<rparr>)"
  by (induction n rs acc s rule: relationshipFieldsLoop.induct) simp_all

lemma relationshipFieldsLoop_fails:
  "OtherRelationship \<in> set rs \<Longrightarrow>
   fst (relationshipFieldsLoop n rs acc s) = Inl (Error (unsupportedRelationshipMessage n))"
  by (induction n rs acc s rule: relationshipFieldsLoop.induct) simp_all

lemma relationshipFieldsLoop_registry:
  "storageRegistry (snd (relationshipFieldsLoop n rs acc s)) = storageRegistry s"
  by (induction n rs acc s rule: relationshipFieldsLoop.induct) simp_all

lemma reverseRelationshipFieldsLoop_ok:
  "OtherRelationship \<notin> set rs \<Longrightarrow>
   reverseRelationshipFieldsLoop n rs acc s =
     (Inr (acc @ map quoted (childOfReverseAliases rs)),
      s\<lparr>referencedImports := foldl setAdd (referencedImports s) (childOfSources rs),
        console := console s @ reverseConnectsWarnings n rs\<rparr>)"
  by (induction n rs acc s rule: reverseRelationshipFieldsLoop.induct) simp_all

lemma reverseRelationshipFieldsLoop_fails:
  "OtherRelationship \<in> set rs \<Longrightarrow>
   fst (reverseRelationshipFieldsLoop n rs acc s)
     = Inl (Error (unsupportedReverseRelationshipMessage n @ '' ''))"
  by (induction n rs acc s rule: reverseRelationshipFieldsLoop.induct) simp_all

lemma reverseRelationshipFieldsLoop_registry:
  "storageRegistry (snd (reverseRelationshipFieldsLoop n rs acc s)) = storageRegistry s"
  by (induction n rs acc s rule: reverseRelationshipFieldsLoop.induct) simp_all

lemma interfaceParameters_registry:
  "storageRegistry (snd (generateTypescriptInterfaceParameters cd s)) = storageRegistry s"
proof -
  have fwd: "storageRegistry (snd (relationshipFieldsLoop n rs [] s)) = storageRegistry s" for n rs
    by (rule relationshipFieldsLoop_registry)
  have rev: "storageRegistry (snd (reverseRelationshipFieldsLoop n rs [] t)) = storageRegistry t"
    for n rs t
    by (rule reverseRelationshipFieldsLoop_registry)
  show ?thesis
    unfolding generateTypescriptInterfaceParameters_def
    using fwd [of "name cd" "forwardRelationships cd"]
      rev [of "name cd" "reverseRelationships cd"
              "snd (relationshipFieldsLoop (name cd) (forwardRelationships cd) [] s)"]
    by (auto split: prod.splits sum.splits)
qed

lemma interface_registry:
  "storageRegistry (snd (generateTypescriptInterface cdo opts s)) = storageRegistry s"
proof (cases cdo)
  case Absent
  then show ?thesis by (simp add: generateTypescriptInterface_def)
next
  case (Inherited key)
  then show ?thesis by (simp add: generateTypescriptInterface_def)
next
  case (Own cd)
  with interfaceParameters_registry [of cd s] show ?thesis
    unfolding generateTypescriptInterface_def
    by (auto simp: Let_def split: sum.splits prod.splits)
qed

lemma interfacesLoop_registry:
  "storageRegistry (snd (interfacesLoop names opts s)) = storageRegistry s"
proof (induction names arbitrary: s)
  case Nil
  show ?case by simp
next
  case (Cons n names)
  obtain r s1 where step:
    "generateTypescriptInterface (propertyRead (storageRegistry s) n) opts s = (r, s1)"
    by (cases "generateTypescriptInterface (propertyRead (storageRegistry s) n) opts s")
  have s1: "storageRegistry s1 = storageRegistry s"
    using interface_registry [of "propertyRead (storageRegistry s) n" opts s] step by simp
  show ?case
  proof (cases r)
    case (Inl e)
    with step s1 show ?thesis by simp
  next
    case (Inr decl)
    obtain r2 s2 where rest: "interfacesLoop names opts s1 = (r2, s2)"
      by (cases "interfacesLoop names opts s1")
    have "storageRegistry s2 = storageRegistry s1"
      using Cons.IH [of s1] rest by simp
    with step Inr rest s1 show ?thesis
      by (cases r2) simp_all
  qed
qed

text \<open>
  Claim C9. Whatever a run of the batch entry point returns, a result or an error, the
  registry it leaves is the registry it was given: every collection definition, with its
  fields, primary-key index, relationships and reverse relationships, is as before. The
  run writes the referenced-collection set of its own context and the console only; the
  options are values that are read.
\<close>

theorem registry_unchanged:
  "storageRegistry (snd (generateTypescriptInterfaces s opts)) = storageRegistry s"
proof -
  have "storageRegistry (snd (interfacesLoop (collections opts) opts (s\<lparr>referencedImports := []\<rparr>)))
          = storageRegistry s"
    using interfacesLoop_registry [of "collections opts" opts "s\<lparr>referencedImports := []\<rparr>"]
    by simp
  then show ?thesis
    unfolding generateTypescriptInterfaces_def
    by (auto simp: Let_def split: prod.splits sum.splits)
qed

theorem registry_unchanged_witness:
  "storageRegistry (snd (generateTypescriptInterfaces exampleState
      (exampleOptions AutoPkInt [''foo'', ''bar'', ''baz'']))) = exampleRegistry"
  using registry_unchanged [of exampleState "exampleOptions AutoPkInt [''foo'', ''bar'', ''baz'']"]
  by (simp add: exampleState_def)

section \<open>The declaration header\<close>

lemma interfaceParameters_ok:
  assumes "OtherRelationship \<notin> set (forwardRelationships cd)"
    and "OtherRelationship \<notin> set (reverseRelationships cd)"
  shows "generateTypescriptInterfaceParameters cd s =
     (if forwardRelationships cd = [] \<and> reverseRelationships cd = []
      then (Inr ''<WithPk extends boolean = true>'', s)
      else (Inr (parameterClause
                  (map quoted (childOfAliases (forwardRelationships cd)) @ [''null''])
                  (map quoted (childOfReverseAliases (reverseRelationships cd)) @ [''null''])),
            s\<lparr>referencedImports := foldl setAdd (referencedImports s) (referencedNames cd),
              console := console s @ connectsWarnings (name cd) (forwardRelationships cd)
                           @ reverseConnectsWarnings (name cd) (reverseRelationships cd)\<rparr>))"
  unfolding generateTypescriptInterfaceParameters_def
  by (simp add: relationshipFieldsLoop_ok [OF assms(1)]
        reverseRelationshipFieldsLoop_ok [OF assms(2)] referencedNames_def)

lemma interfaceParameters_fails:
  assumes "OtherRelationship \<in> set (forwardRelationships cd) \<union> set (reverseRelationships cd)"
  shows "\<exists>e. fst (generateTypescriptInterfaceParameters cd s) = Inl e"
proof (cases "OtherRelationship \<in> set (forwardRelationships cd)")
  case True
  then have ne: "forwardRelationships cd \<noteq> []" by auto
  from relationshipFieldsLoop_fails [OF True, of "name cd" "[]" s]
  show ?thesis
    unfolding generateTypescriptInterfaceParameters_def using ne
    by (auto split: prod.splits sum.splits)
next
  case False
  with assms have rev: "OtherRelationship \<in> set (reverseRelationships cd)" by simp
  then have ne: "reverseRelationships cd \<noteq> []" by auto
  from reverseRelationshipFieldsLoop_fails
         [OF rev, of "name cd" "[]"
            "s\<lparr>referencedImports :=
                 foldl setAdd (referencedImports s) (childOfTargets (forwardRelationships cd)),
               console := console s @ connectsWarnings (name cd) (forwardRelationships cd)\<rparr>"]
  show ?thesis
    unfolding generateTypescriptInterfaceParameters_def using ne
    by (auto simp: relationshipFieldsLoop_ok [OF False] split: prod.splits sum.splits)
qed

text \<open>
  Claim C5. The header is produced exactly when no relationship, forward or reverse, is of
  an unsupported variant. Without any forward or reverse relationship it declares the
  primary-key switch alone, \<^verbatim>\<open><WithPk extends boolean = true>\<close>. Otherwise it declares in
  addition the switch \<^verbatim>\<open>Relationships\<close>, ranging over the quoted aliases of the forward
  child-of relationships and \<^verbatim>\<open>null\<close>, with default \<^verbatim>\<open>null\<close>, and, exactly when there
  is a reverse child-of relationship (so only if there is a reverse relationship), the
  switch \<^verbatim>\<open>ReverseRelationships\<close>, ranging over the quoted reverse aliases and
  \<^verbatim>\<open>null\<close>, with default \<^verbatim>\<open>null\<close>. Connects relationships contribute no alias.
\<close>

theorem header_parameters:
  assumes "fws = forwardRelationships cd" and "rvs = reverseRelationships cd"
  shows "((\<exists>p s'. generateTypescriptInterfaceParameters cd s = (Inr p, s'))
            \<longleftrightarrow> OtherRelationship \<notin> set fws \<union> set rvs)
       \<and> (fws = [] \<and> rvs = [] \<longrightarrow>
            generateTypescriptInterfaceParameters cd s = (Inr ''<WithPk extends boolean = true>'', s))
       \<and> (\<forall>p s'. generateTypescriptInterfaceParameters cd s = (Inr p, s') \<and> \<not> (fws = [] \<and> rvs = []) \<longrightarrow>
            p = ''<WithPk extends boolean = true, Relationships extends '' @
                join '' | '' (map quoted (childOfAliases fws) @ [''null'']) @ '' = null'' @
                (if childOfReverseAliases rvs = [] then []
                 else '', ReverseRelationships extends '' @
                      join '' | '' (map quoted (childOfReverseAliases rvs) @ [''null'']) @
                      '' = null'') @
                ''>'')
       \<and> (childOfReverseAliases rvs \<noteq> [] \<longrightarrow> rvs \<noteq> [])"
proof (cases "OtherRelationship \<in> set fws \<union> set rvs")
  case True
  from interfaceParameters_fails [of cd s] True assms
  obtain e where e: "fst (generateTypescriptInterfaceParameters cd s) = Inl e" by auto
  from True have "\<not> (fws = [] \<and> rvs = [])" by auto
  with True e show ?thesis by auto
next
  case False
  then have f: "OtherRelationship \<notin> set (forwardRelationships cd)"
    and r: "OtherRelationship \<notin> set (reverseRelationships cd)"
    using assms by auto
  show ?thesis
    using False assms
    by (auto simp: interfaceParameters_ok [OF f r] parameterClause_def)
qed

theorem header_parameters_witness:
  "generateTypescriptInterfaceParameters exampleTest exampleState
     = (Inr ''<WithPk extends boolean = true>'', exampleState)
   \<and> fst (generateTypescriptInterfaceParameters exampleBar exampleState)
     = Inr ''<WithPk extends boolean = true, Relationships extends 'foo' | null = null>''
   \<and> fst (generateTypescriptInterfaceParameters exampleFoo exampleState)
     = Inr ''<WithPk extends boolean = true, Relationships extends null = null, ReverseRelationships extends 'bars' | null = null>''"
proof -
  note h = header_parameters [OF refl refl]
  have t: "forwardRelationships exampleTest = []" "reverseRelationships exampleTest = []"
    by (simp_all add: forwardRelationships_def reverseRelationships_def exampleTest_def)
  from h [of exampleTest exampleState] t
  have a: "generateTypescriptInterfaceParameters exampleTest exampleState
             = (Inr ''<WithPk extends boolean = true>'', exampleState)"
    by blast
  have bf: "forwardRelationships exampleBar = [ChildOf barChildOfFoo]"
    and br: "reverseRelationships exampleBar = []"
    by (simp_all add: forwardRelationships_def reverseRelationships_def exampleBar_def)
  from h [of exampleBar exampleState] bf br
  obtain p s' where run: "generateTypescriptInterfaceParameters exampleBar exampleState = (Inr p, s')"
    by auto
  from h [of exampleBar exampleState] run bf br
  have "p = ''<WithPk extends boolean = true, Relationships extends '' @
            join '' | '' (map quoted (childOfAliases [ChildOf barChildOfFoo]) @ [''null'']) @
            '' = null'' @ ''>''"
    by simp
  with run have b: "fst (generateTypescriptInterfaceParameters exampleBar exampleState)
     = Inr ''<WithPk extends boolean = true, Relationships extends 'foo' | null = null>''"
    by (simp add: barChildOfFoo_def quoted_def)
  have ff: "forwardRelationships exampleFoo = []"
    and fr: "reverseRelationships exampleFoo = [ChildOf barChildOfFoo]"
    by (simp_all add: forwardRelationships_def reverseRelationships_def exampleFoo_def)
  from h [of exampleFoo exampleState] ff fr
  obtain q t' where run2: "generateTypescriptInterfaceParameters exampleFoo exampleState = (Inr q, t')"
    by auto
  from h [of exampleFoo exampleState] run2 ff fr
  have "q = ''<WithPk extends boolean = true, Relationships extends '' @
            join '' | '' [''null''] @ '' = null'' @
            '', ReverseRelationships extends '' @
            join '' | '' (map quoted (childOfReverseAliases [ChildOf barChildOfFoo]) @ [''null'']) @
            '' = null'' @ ''>''"
    by simp
  with run2 have c: "fst (generateTypescriptInterfaceParameters exampleFoo exampleState)
     = Inr ''<WithPk extends boolean = true, Relationships extends null = null, ReverseRelationships extends 'bars' | null = null>''"
    by (simp add: barChildOfFoo_def quoted_def)
  from a b c show ?thesis by simp
qed

section \<open>Relationship variants\<close>

lemma mapResult_all_ok:
  "\<forall>x \<in> set xs. \<exists>y. f x = Inr y \<Longrightarrow> \<exists>ys. mapResult f xs = Inr ys"
proof (induction xs)
  case Nil
  show ?case by simp
next
  case (Cons x xs)
  from Cons.prems obtain y where y: "f x = Inr y" by auto
  from Cons.prems have "\<forall>x \<in> set xs. \<exists>y. f x = Inr y" by simp
  with Cons.IH obtain ys where "mapResult f xs = Inr ys" by blast
  with y show ?case by simp
qed

lemma mapResult_first_error:
  "x \<in> set xs \<Longrightarrow> f x = Inl e \<Longrightarrow> \<forall>y \<in> set xs. \<forall>e'. f y = Inl e' \<longrightarrow> e' = e
   \<Longrightarrow> mapResult f xs = Inl e"
proof (induction xs)
  case Nil
  then show ?case by simp
next
  case (Cons a xs)
  show ?case
  proof (cases "f a")
    case (Inl e')
    with Cons.prems(3) have "e' = e" by simp
    with Inl show ?thesis by simp
  next
    case (Inr y)
    with Cons.prems(1,2) have "x \<in> set xs" by auto
    moreover from Cons.prems(3) have "\<forall>y \<in> set xs. \<forall>e'. f y = Inl e' \<longrightarrow> e' = e" by simp
    ultimately have "mapResult f xs = Inl e" using Cons.IH Cons.prems(2) by blast
    with Inr show ?thesis by simp
  qed
qed


lemma relationship_line_ok:
  "x \<noteq> OtherRelationship \<Longrightarrow> \<exists>y. generateTypescriptRelationship x opts cd = Inr y"
  by (cases x) (simp_all add: generateTypescriptRelationship_def Let_def)

lemma relationship_line_error:
  "generateTypescriptRelationship y opts cd = Inl e' \<Longrightarrow>
   e' = Error (unsupportedRelationshipMessage (name cd))"
  by (cases y) (simp_all add: generateTypescriptRelationship_def Let_def)

lemma reverse_line_ok:
  "x \<noteq> OtherRelationship \<Longrightarrow> \<exists>y. generateTypescriptReverseRelationship x opts cd = Inr y"
  by (cases x) (simp_all add: generateTypescriptReverseRelationship_def Let_def)

lemma reverse_line_error:
  "generateTypescriptReverseRelationship y opts cd = Inl e' \<Longrightarrow>
   e' = Error (unsupportedReverseRelationshipMessage (name cd))"
  by (cases y) (simp_all add: generateTypescriptReverseRelationship_def Let_def)

lemma forward_lines_ok:
  assumes "OtherRelationship \<notin> set rs"
  shows "\<exists>ls. mapResult (\<lambda>rel. generateTypescriptRelationship rel opts cd) rs = Inr ls"
proof (rule mapResult_all_ok)
  show "\<forall>x \<in> set rs. \<exists>y. generateTypescriptRelationship x opts cd = Inr y"
    using assms relationship_line_ok by metis
qed

lemma reverse_lines_ok:
  assumes "OtherRelationship \<notin> set rs"
  shows "\<exists>ls. mapResult (\<lambda>rel. generateTypescriptReverseRelationship rel opts cd) rs = Inr ls"
proof (rule mapResult_all_ok)
  show "\<forall>x \<in> set rs. \<exists>y. generateTypescriptReverseRelationship x opts cd = Inr y"
    using assms reverse_line_ok by metis
qed

lemma forward_lines_fail:
  assumes "OtherRelationship \<in> set rs"
  shows "mapResult (\<lambda>rel. generateTypescriptRelationship rel opts cd) rs
           = Inl (Error (unsupportedRelationshipMessage (name cd)))"
proof (rule mapResult_first_error [OF assms])
  show "generateTypescriptRelationship OtherRelationship opts cd
          = Inl (Error (unsupportedRelationshipMessage (name cd)))"
    by (simp add: generateTypescriptRelationship_def)
  show "\<forall>y \<in> set rs. \<forall>e'. generateTypescriptRelationship y opts cd = Inl e' \<longrightarrow>
          e' = Error (unsupportedRelationshipMessage (name cd))"
    using relationship_line_error by blast
qed

lemma reverse_lines_fail:
  assumes "OtherRelationship \<in> set rs"
  shows "mapResult (\<lambda>rel. generateTypescriptReverseRelationship rel opts cd) rs
           = Inl (Error (unsupportedReverseRelationshipMessage (name cd)))"
proof (rule mapResult_first_error [OF assms])
  show "generateTypescriptReverseRelationship OtherRelationship opts cd
          = Inl (Error (unsupportedReverseRelationshipMessage (name cd)))"
    by (simp add: generateTypescriptReverseRelationship_def)
  show "\<forall>y \<in> set rs. \<forall>e'. generateTypescriptReverseRelationship y opts cd = Inl e' \<longrightarrow>
          e' = Error (unsupportedReverseRelationshipMessage (name cd))"
    using reverse_line_error by blast
qed

lemma interface_fails_on_other:
  assumes "OtherRelationship \<in> set (forwardRelationships cd) \<union> set (reverseRelationships cd)"
  shows "\<exists>e. fst (generateTypescriptInterface (Own cd) opts s) = Inl e"
proof (cases "generateTypescriptOptionalPk cd opts")
  case (Inl e)
  then show ?thesis by (simp add: generateTypescriptInterface_def)
next
  case pk: (Inr pkLine)
  show ?thesis
  proof (cases "fieldLinesOf cd opts")
    case (Inl e)
    with pk show ?thesis by (simp add: generateTypescriptInterface_def)
  next
    case fl: (Inr fieldLines)
    show ?thesis
    proof (cases "OtherRelationship \<in> set (forwardRelationships cd)")
      case True
      from pk fl show ?thesis
        by (simp add: generateTypescriptInterface_def forward_lines_fail [OF True])
    next
      case False
      with assms have rev: "OtherRelationship \<in> set (reverseRelationships cd)" by simp
      from forward_lines_ok [OF False, of opts cd] obtain ls
        where "mapResult (\<lambda>rel. generateTypescriptRelationship rel opts cd)
                 (forwardRelationships cd) = Inr ls" by blast
      with pk fl show ?thesis
        by (simp add: generateTypescriptInterface_def reverse_lines_fail [OF rev])
    qed
  qed
qed

lemma interface_error_on_other:
  assumes "OtherRelationship \<in> set (forwardRelationships cd) \<union> set (reverseRelationships cd)"
    and pk: "generateTypescriptOptionalPk cd opts = Inr pkLine"
    and fl: "fieldLinesOf cd opts = Inr fieldLines"
  shows "generateTypescriptInterface (Own cd) opts s =
           (Inl (Error (if OtherRelationship \<in> set (forwardRelationships cd)
                        then unsupportedRelationshipMessage (name cd)
                        else unsupportedReverseRelationshipMessage (name cd))), s)"
proof (cases "OtherRelationship \<in> set (forwardRelationships cd)")
  case True
  from pk fl True show ?thesis
    by (simp add: generateTypescriptInterface_def forward_lines_fail [OF True])
next
  case False
  with assms have rev: "OtherRelationship \<in> set (reverseRelationships cd)" by simp
  from forward_lines_ok [OF False, of opts cd] obtain ls
    where "mapResult (\<lambda>rel. generateTypescriptRelationship rel opts cd)
             (forwardRelationships cd) = Inr ls" by blast
  with pk fl False show ?thesis
    by (simp add: generateTypescriptInterface_def reverse_lines_fail [OF rev])
qed

lemma interface_ok:
  assumes "OtherRelationship \<notin> set (forwardRelationships cd) \<union> set (reverseRelationships cd)"
    and pk: "generateTypescriptOptionalPk cd opts = Inr pkLine"
    and fl: "fieldLinesOf cd opts = Inr fieldLines"
  shows "\<exists>rest. generateTypescriptInterface (Own cd) opts s =
           (Inr (''export type '' @ rest),
            s\<lparr>referencedImports := foldl setAdd (referencedImports s) (referencedNames cd),
              console := console s @ connectsWarnings (name cd) (forwardRelationships cd)
                           @ reverseConnectsWarnings (name cd) (reverseRelationships cd)\<rparr>)"
proof -
  from assms(1) have f: "OtherRelationship \<notin> set (forwardRelationships cd)"
    and r: "OtherRelationship \<notin> set (reverseRelationships cd)" by auto
  from forward_lines_ok [OF f, of opts cd] obtain ls
    where ls: "mapResult (\<lambda>rel. generateTypescriptRelationship rel opts cd)
                 (forwardRelationships cd) = Inr ls" by blast
  from reverse_lines_ok [OF r, of opts cd] obtain rls
    where rls: "mapResult (\<lambda>rel. generateTypescriptReverseRelationship rel opts cd)
                  (reverseRelationships cd) = Inr rls" by blast
  have params: "\<exists>p. generateTypescriptInterfaceParameters cd s =
           (Inr p,
            s\<lparr>referencedImports := foldl setAdd (referencedImports s) (referencedNames cd),
              console := console s @ connectsWarnings (name cd) (forwardRelationships cd)
                           @ reverseConnectsWarnings (name cd) (reverseRelationships cd)\<rparr>)"
    by (simp add: interfaceParameters_ok [OF f r] referencedNames_def)
  then obtain p where p: "generateTypescriptInterfaceParameters cd s =
           (Inr p,
            s\<lparr>referencedImports := foldl setAdd (referencedImports s) (referencedNames cd),
              console := console s @ connectsWarnings (name cd) (forwardRelationships cd)
                           @ reverseConnectsWarnings (name cd) (reverseRelationships cd)\<rparr>)"
    by blast
  show ?thesis
    by (simp add: generateTypescriptInterface_def pk fl ls rls p Let_def)
qed

lemma interface_success_state:
  assumes "generateTypescriptInterface cdo opts s = (Inr out, s')"
  shows "\<exists>cd. cdo = Own cd
           \<and> referencedImports s' = foldl setAdd (referencedImports s) (referencedNames cd)
           \<and> (\<exists>rest. out = ''export type '' @ rest)"
proof -
  from assms obtain cd where cd: "cdo = Own cd"
    by (cases cdo) (simp_all add: generateTypescriptInterface_def)
  have no: "OtherRelationship \<notin> set (forwardRelationships cd) \<union> set (reverseRelationships cd)"
    using interface_fails_on_other [of cd opts s] assms cd by auto
  from assms cd obtain pkLine where pk: "generateTypescriptOptionalPk cd opts = Inr pkLine"
    by (cases "generateTypescriptOptionalPk cd opts") (simp_all add: generateTypescriptInterface_def)
  from assms cd pk obtain fl where fl: "fieldLinesOf cd opts = Inr fl"
    by (cases "fieldLinesOf cd opts") (simp_all add: generateTypescriptInterface_def)
  from interface_ok [OF no pk fl, of s] assms cd show ?thesis by auto
qed

lemma interface_produces:
  assumes "OtherRelationship \<notin> set (forwardRelationships cd) \<union> set (reverseRelationships cd)"
    and pk: "generateTypescriptOptionalPk cd opts = Inr pkLine"
    and fl: "fieldLinesOf cd opts = Inr fieldLines"
  shows "\<exists>out. generateTypescriptInterface (Own cd) opts s =
           (Inr out,
            s\<lparr>referencedImports := foldl setAdd (referencedImports s) (referencedNames cd),
              console := console s @ connectsWarnings (name cd) (forwardRelationships cd)
                           @ reverseConnectsWarnings (name cd) (reverseRelationships cd)\<rparr>)"
  using interface_ok [OF assms, of s] by blast

lemma interfacesLoop_fails_on_other:
  assumes "n \<in> set names" and "storageRegistry s n = Some cd"
    and "OtherRelationship \<in> set (forwardRelationships cd) \<union> set (reverseRelationships cd)"
  shows "\<exists>e. fst (interfacesLoop names opts s) = Inl e"
  using assms
proof (induction names arbitrary: s)
  case Nil
  then show ?case by simp
next
  case (Cons m names)
  obtain r s1 where step:
    "generateTypescriptInterface (propertyRead (storageRegistry s) m) opts s = (r, s1)"
    by (cases "generateTypescriptInterface (propertyRead (storageRegistry s) m) opts s")
  show ?case
  proof (cases r)
    case (Inl e)
    with step show ?thesis by simp
  next
    case (Inr decl)
    have "m \<noteq> n"
    proof
      assume "m = n"
      with Cons.prems(2) have "propertyRead (storageRegistry s) m = Own cd"
        by (simp add: propertyRead_Own)
      with Cons.prems(3) interface_fails_on_other [of cd opts s] step Inr
      show False by simp
    qed
    with Cons.prems(1) have mem: "n \<in> set names" by simp
    have "storageRegistry s1 = storageRegistry s"
      using interface_registry [of "propertyRead (storageRegistry s) m" opts s] step by simp
    with Cons.prems(2) have "storageRegistry s1 n = Some cd" by simp
    from Cons.IH [OF mem this Cons.prems(3)]
    obtain e where "fst (interfacesLoop names opts s1) = Inl e" by blast
    with step Inr show ?thesis
      by (cases "interfacesLoop names opts s1") simp
  qed
qed

lemma batch_fails_on_other:
  assumes "n \<in> set (collections opts)" and "storageRegistry s n = Some cd"
    and "OtherRelationship \<in> set (forwardRelationships cd) \<union> set (reverseRelationships cd)"
  shows "\<exists>e. fst (generateTypescriptInterfaces s opts) = Inl e"
proof -
  from interfacesLoop_fails_on_other
         [of n "collections opts" "s\<lparr>referencedImports := []\<rparr>" cd opts] assms
  obtain e where "fst (interfacesLoop (collections opts) opts (s\<lparr>referencedImports := []\<rparr>)) = Inl e"
    by auto
  then show ?thesis
    by (cases "interfacesLoop (collections opts) opts (s\<lparr>referencedImports := []\<rparr>)")
       (simp add: generateTypescriptInterfaces_def)
qed

text \<open>
  Claim C8. A connects relationship, forward or reverse, gives no line (the emitters return
  \<^verbatim>\<open>null\<close>), and each header loop writes a warning for it and goes on; a collection whose
  relationships are all child-of or connects, and whose primary key and fields are
  emitted, is generated, with the console extended by exactly these warnings. A
  relationship that is neither child-of nor connects makes the emitters throw the
  unsupported-relationship error, whose message ends with the collection name; the
  declaration of a collection with such a relationship fails, and so does the batch that
  requests it; when the primary key and the fields are emitted the error of the
  declaration is that error.
\<close>

theorem relationship_variants:
  assumes "fws = forwardRelationships cd" and "rvs = reverseRelationships cd"
  shows "generateTypescriptRelationship (Connects a b) opts cd = Inr None
       \<and> generateTypescriptReverseRelationship (Connects a b) opts cd = Inr None
       \<and> relationshipFieldsLoop n (Connects a b # rs) acc s
           = relationshipFieldsLoop n rs acc (s\<lparr>console := console s @ [connectsWarning n]\<rparr>)
       \<and> reverseRelationshipFieldsLoop n (Connects a b # rs) acc s
           = reverseRelationshipFieldsLoop n rs acc
               (s\<lparr>console := console s @ [reverseConnectsWarning n a b]\<rparr>)
       \<and> generateTypescriptRelationship OtherRelationship opts cd
           = Inl (Error (''Unsupported relationship type detected in collection '' @ name cd))
       \<and> generateTypescriptReverseRelationship OtherRelationship opts cd
           = Inl (Error (''Unsupported reverse relationship type detected in collection '' @ name cd))
       \<and> (OtherRelationship \<in> set fws \<union> set rvs \<longrightarrow>
            (\<exists>e. fst (generateTypescriptInterface (Own cd) opts s) = Inl e))
       \<and> (OtherRelationship \<in> set fws \<union> set rvs
            \<and> c \<in> set (collections opts) \<and> storageRegistry s c = Some cd \<longrightarrow>
            (\<exists>e. fst (generateTypescriptInterfaces s opts) = Inl e))
       \<and> (OtherRelationship \<in> set fws \<union> set rvs
            \<and> (\<exists>pkLine. generateTypescriptOptionalPk cd opts = Inr pkLine)
            \<and> (\<exists>fieldLines. fieldLinesOf cd opts = Inr fieldLines) \<longrightarrow>
            generateTypescriptInterface (Own cd) opts s
              = (Inl (Error ((if OtherRelationship \<in> set fws
                              then ''Unsupported relationship type detected in collection ''
                              else ''Unsupported reverse relationship type detected in collection '')
                             @ name cd)), s))
       \<and> (OtherRelationship \<notin> set fws \<union> set rvs
            \<and> (\<exists>pkLine. generateTypescriptOptionalPk cd opts = Inr pkLine)
            \<and> (\<exists>fieldLines. fieldLinesOf cd opts = Inr fieldLines) \<longrightarrow>
            (\<exists>out s'. generateTypescriptInterface (Own cd) opts s = (Inr out, s')
               \<and> console s' = console s @ connectsWarnings (name cd) fws
                                 @ reverseConnectsWarnings (name cd) rvs))"
proof -
  have c1: "generateTypescriptRelationship (Connects a b) opts cd = Inr None"
    by (simp add: generateTypescriptRelationship_def)
  have c2: "generateTypescriptReverseRelationship (Connects a b) opts cd = Inr None"
    by (simp add: generateTypescriptReverseRelationship_def)
  have c3: "relationshipFieldsLoop n (Connects a b # rs) acc s
           = relationshipFieldsLoop n rs acc (s\<lparr>console := console s @ [connectsWarning n]\<rparr>)"
    by simp
  have c4: "reverseRelationshipFieldsLoop n (Connects a b # rs) acc s
           = reverseRelationshipFieldsLoop n rs acc
               (s\<lparr>console := console s @ [reverseConnectsWarning n a b]\<rparr>)"
    by simp
  have c5: "generateTypescriptRelationship OtherRelationship opts cd
           = Inl (Error (''Unsupported relationship type detected in collection '' @ name cd))"
    by (simp add: generateTypescriptRelationship_def unsupportedRelationshipMessage_def)
  have c6: "generateTypescriptReverseRelationship OtherRelationship opts cd
           = Inl (Error (''Unsupported reverse relationship type detected in collection '' @ name cd))"
    by (simp add: generateTypescriptReverseRelationship_def unsupportedReverseRelationshipMessage_def)
  have c7: "OtherRelationship \<in> set fws \<union> set rvs \<longrightarrow>
            (\<exists>e. fst (generateTypescriptInterface (Own cd) opts s) = Inl e)"
    using interface_fails_on_other [of cd opts s] assms by blast
  have c8: "OtherRelationship \<in> set fws \<union> set rvs
            \<and> c \<in> set (collections opts) \<and> storageRegistry s c = Some cd \<longrightarrow>
            (\<exists>e. fst (generateTypescriptInterfaces s opts) = Inl e)"
    using batch_fails_on_other [of c opts s cd] assms by blast
  have c9: "OtherRelationship \<in> set fws \<union> set rvs
            \<and> (\<exists>pkLine. generateTypescriptOptionalPk cd opts = Inr pkLine)
            \<and> (\<exists>fieldLines. fieldLinesOf cd opts = Inr fieldLines) \<longrightarrow>
            generateTypescriptInterface (Own cd) opts s
              = (Inl (Error ((if OtherRelationship \<in> set fws
                              then ''Unsupported relationship type detected in collection ''
                              else ''Unsupported reverse relationship type detected in collection '')
                             @ name cd)), s)"
  proof (intro impI, elim conjE exE)
    fix pkLine fieldLines
    assume o: "OtherRelationship \<in> set fws \<union> set rvs"
      and pk: "generateTypescriptOptionalPk cd opts = Inr pkLine"
      and fl: "fieldLinesOf cd opts = Inr fieldLines"
    from o assms have o': "OtherRelationship \<in> set (forwardRelationships cd) \<union> set (reverseRelationships cd)"
      by simp
    from interface_error_on_other [OF o' pk fl, of s] assms
    show "generateTypescriptInterface (Own cd) opts s
              = (Inl (Error ((if OtherRelationship \<in> set fws
                              then ''Unsupported relationship type detected in collection ''
                              else ''Unsupported reverse relationship type detected in collection '')
                             @ name cd)), s)"
      by (simp add: unsupportedRelationshipMessage_def unsupportedReverseRelationshipMessage_def)
  qed
  have c10: "OtherRelationship \<notin> set fws \<union> set rvs
            \<and> (\<exists>pkLine. generateTypescriptOptionalPk cd opts = Inr pkLine)
            \<and> (\<exists>fieldLines. fieldLinesOf cd opts = Inr fieldLines) \<longrightarrow>
            (\<exists>out s'. generateTypescriptInterface (Own cd) opts s = (Inr out, s')
               \<and> console s' = console s @ connectsWarnings (name cd) fws
                                 @ reverseConnectsWarnings (name cd) rvs)"
  proof (intro impI, elim conjE exE)
    fix pkLine fieldLines
    assume o: "OtherRelationship \<notin> set fws \<union> set rvs"
      and pk: "generateTypescriptOptionalPk cd opts = Inr pkLine"
      and fl: "fieldLinesOf cd opts = Inr fieldLines"
    from o assms have o': "OtherRelationship \<notin> set (forwardRelationships cd) \<union> set (reverseRelationships cd)"
      by simp
    from interface_produces [OF o' pk fl, of s] obtain out where
      "generateTypescriptInterface (Own cd) opts s =
           (Inr out,
            s\<lparr>referencedImports := foldl setAdd (referencedImports s) (referencedNames cd),
              console := console s @ connectsWarnings (name cd) (forwardRelationships cd)
                           @ reverseConnectsWarnings (name cd) (reverseRelationships cd)\<rparr>)"
      by blast
    with assms show "\<exists>out s'. generateTypescriptInterface (Own cd) opts s = (Inr out, s')
               \<and> console s' = console s @ connectsWarnings (name cd) fws
                                 @ reverseConnectsWarnings (name cd) rvs"
      by simp
  qed
  from c1 c2 c3 c4 c5 c6 c7 c8 c9 c10 show ?thesis by blast
qed

theorem relationship_variants_witness:
  "generateTypescriptInterface (Own exampleBroken) (exampleOptions AutoPkInt [''broken'']) exampleState
     = (Inl (Error ''Unsupported relationship type detected in collection broken''), exampleState)
   \<and> (\<exists>e. fst (generateTypescriptInterfaces exampleState
                 (exampleOptions AutoPkInt [''foo'', ''broken''])) = Inl e)
   \<and> (\<exists>out s'. generateTypescriptInterface (Own exampleBaz)
                   (exampleOptions AutoPkInt [''baz'']) exampleState = (Inr out, s')
         \<and> console s' = [''Warning: 'connects' relationships are not supported yet, skipping one in collection baz''])"
proof -
  have pk: "\<exists>pkLine. generateTypescriptOptionalPk cd (exampleOptions AutoPkInt cs) = Inr pkLine"
    if "pkIndex cd = PkField ''id''" for cd cs
    using that by (simp add: generateTypescriptOptionalPk_def)
  have fl: "\<exists>fieldLines. fieldLinesOf cd (exampleOptions AutoPkInt cs) = Inr fieldLines"
    if "pkIndex cd = PkField ''id''"
      and "collFields cd = [(''id'', \<lparr>type = ''auto-pk'', optional = False\<rparr>)]" for cd cs
    using that by (simp add: fieldLinesOf_def generateTypescriptField_def)
  have broken: "forwardRelationships exampleBroken = [OtherRelationship]"
    "reverseRelationships exampleBroken = []" "name exampleBroken = ''broken''"
    "pkIndex exampleBroken = PkField ''id''"
    "collFields exampleBroken = [(''id'', \<lparr>type = ''auto-pk'', optional = False\<rparr>)]"
    by (simp_all add: forwardRelationships_def reverseRelationships_def exampleBroken_def)
  have baz: "forwardRelationships exampleBaz = [Connects ''foo'' ''bar'', ChildOf barChildOfFoo]"
    "reverseRelationships exampleBaz = []" "name exampleBaz = ''baz''"
    "pkIndex exampleBaz = PkField ''id''"
    "collFields exampleBaz = [(''id'', \<lparr>type = ''auto-pk'', optional = False\<rparr>)]"
    by (simp_all add: forwardRelationships_def reverseRelationships_def exampleBaz_def)
  have reg: "storageRegistry exampleState ''broken'' = Some exampleBroken"
    by (simp add: exampleState_def exampleRegistry_def)
  have a: "generateTypescriptInterface (Own exampleBroken) (exampleOptions AutoPkInt [''broken'']) exampleState
     = (Inl (Error ''Unsupported relationship type detected in collection broken''), exampleState)"
    using relationship_variants
            [OF refl refl, where cd = exampleBroken and opts = "exampleOptions AutoPkInt [''broken'']"
               and s = exampleState]
          pk [OF broken(4), of "[''broken'']"] fl [OF broken(4,5), of "[''broken'']"] broken(1,2,3)
    by simp
  have b: "\<exists>e. fst (generateTypescriptInterfaces exampleState
                 (exampleOptions AutoPkInt [''foo'', ''broken''])) = Inl e"
    using relationship_variants
            [OF refl refl, where cd = exampleBroken
               and opts = "exampleOptions AutoPkInt [''foo'', ''broken'']"
               and s = exampleState and c = "''broken''"]
          reg broken(1,2)
    by (simp add: exampleOptions_def)
  have c: "\<exists>out s'. generateTypescriptInterface (Own exampleBaz)
                   (exampleOptions AutoPkInt [''baz'']) exampleState = (Inr out, s')
         \<and> console s' = [''Warning: 'connects' relationships are not supported yet, skipping one in collection baz'']"
    using relationship_variants
            [OF refl refl, where cd = exampleBaz and opts = "exampleOptions AutoPkInt [''baz'']"
               and s = exampleState]
          pk [OF baz(4), of "[''baz'']"] fl [OF baz(4,5), of "[''baz'']"] baz(1,2,3)
    by (simp add: exampleState_def connectsWarning_def)
  from a b c show ?thesis by blast
qed

section \<open>Imports\<close>

lemma filter_neq_absent:
  "\<not> P x \<Longrightarrow> filter (\<lambda>y. y \<noteq> x) (filter P zs) = filter P zs"
  by (induction zs) auto

lemma firstOccurrences_filter:
  "firstOccurrences (filter P xs) = filter P (firstOccurrences xs)"
proof (induction xs)
  case Nil
  show ?case by simp
next
  case (Cons x xs)
  have swap: "filter (\<lambda>y. y \<noteq> x) (filter P (firstOccurrences xs))
          = filter P (filter (\<lambda>y. y \<noteq> x) (firstOccurrences xs))"
    by (simp add: conj_commute)
  show ?case
  proof (cases "P x")
    case True
    with Cons swap show ?thesis by simp
  next
    case False
    then have "filter (\<lambda>y. y \<noteq> x) (filter P (firstOccurrences xs))
                 = filter P (firstOccurrences xs)"
      by (rule filter_neq_absent)
    with False Cons swap show ?thesis by simp
  qed
qed

lemma set_firstOccurrences: "set (firstOccurrences xs) = set xs"
  by (induction xs) auto

lemma distinct_firstOccurrences: "distinct (firstOccurrences xs)"
  by (induction xs) (simp_all add: set_firstOccurrences)

lemma foldl_setAdd:
  "foldl setAdd acc xs = acc @ firstOccurrences (filter (\<lambda>x. x \<notin> set acc) xs)"
proof (induction xs arbitrary: acc)
  case Nil
  show ?case by simp
next
  case (Cons x xs)
  show ?case
  proof (cases "x \<in> set acc")
    case True
    with Cons [of acc] show ?thesis by (simp add: setAdd_def)
  next
    case False
    have "filter (\<lambda>y. y \<notin> set (acc @ [x])) xs
            = filter (\<lambda>y. y \<noteq> x) (filter (\<lambda>y. y \<notin> set acc) xs)"
      by (induction xs) auto
    with False Cons [of "acc @ [x]"] show ?thesis
      by (simp add: setAdd_def firstOccurrences_filter conj_commute)
  qed
qed

lemma foldl_setAdd_empty: "foldl setAdd [] xs = firstOccurrences xs"
  by (simp add: foldl_setAdd)

lemma interfacesLoop_refs:
  "interfacesLoop names opts s = (Inr decls, s') \<Longrightarrow>
   referencedImports s'
     = foldl setAdd (referencedImports s) (batchReferences (storageRegistry s) names)"
proof (induction names arbitrary: s decls s')
  case Nil
  then show ?case by (simp add: batchReferences_def)
next
  case (Cons n names)
  obtain r s1 where step:
    "generateTypescriptInterface (propertyRead (storageRegistry s) n) opts s = (r, s1)"
    by (cases "generateTypescriptInterface (propertyRead (storageRegistry s) n) opts s")
  obtain r2 s2 where rest: "interfacesLoop names opts s1 = (r2, s2)"
    by (cases "interfacesLoop names opts s1")
  from Cons.prems step obtain decl where r: "r = Inr decl"
    by (cases r) simp_all
  from Cons.prems step r rest obtain ds where r2: "r2 = Inr ds" and s2: "s2 = s'"
    by (cases r2) simp_all
  from interface_success_state [of "propertyRead (storageRegistry s) n" opts s decl s1] step r
  obtain cd where "propertyRead (storageRegistry s) n = Own cd"
    and refs1: "referencedImports s1 = foldl setAdd (referencedImports s) (referencedNames cd)"
    by auto
  then have cd: "storageRegistry s n = Some cd"
    by (simp add: propertyRead_Own)
  have reg: "storageRegistry s1 = storageRegistry s"
    using interface_registry [of "propertyRead (storageRegistry s) n" opts s] step by simp
  from Cons.IH [of s1 ds s'] rest r2 s2
  have "referencedImports s'
          = foldl setAdd (referencedImports s1) (batchReferences (storageRegistry s1) names)"
    by simp
  with refs1 reg cd show ?case
    by (simp add: batchReferences_def)
qed

lemma fieldType_generateImport:
  "getTypescriptFieldType fd (opts\<lparr>generateImport := g\<rparr>) cd f = getTypescriptFieldType fd opts cd f"
  by (simp add: getTypescriptFieldType_def effectiveTypeMap_def Let_def)

lemma field_generateImport:
  "generateTypescriptField fd (opts\<lparr>generateImport := g\<rparr>) cd f = generateTypescriptField fd opts cd f"
  by (simp add: generateTypescriptField_def fieldType_generateImport)

lemma fieldLinesOf_generateImport:
  "fieldLinesOf cd (opts\<lparr>generateImport := g\<rparr>) = fieldLinesOf cd opts"
  by (simp add: fieldLinesOf_def field_generateImport)

lemma pk_generateImport:
  "generateTypescriptOptionalPk cd (opts\<lparr>generateImport := g\<rparr>) = generateTypescriptOptionalPk cd opts"
  by (simp add: generateTypescriptOptionalPk_def pkType_def split: pkIndexT.splits)

lemma relationship_generateImport:
  "generateTypescriptRelationship rel (opts\<lparr>generateImport := g\<rparr>) cd
     = generateTypescriptRelationship rel opts cd"
  by (simp add: generateTypescriptRelationship_def Let_def split: relationship.splits)

lemma reverse_generateImport:
  "generateTypescriptReverseRelationship rel (opts\<lparr>generateImport := g\<rparr>) cd
     = generateTypescriptReverseRelationship rel opts cd"
  by (simp add: generateTypescriptReverseRelationship_def Let_def split: relationship.splits)

lemma interface_generateImport:
  "generateTypescriptInterface cdo (opts\<lparr>generateImport := g\<rparr>) s
     = generateTypescriptInterface cdo opts s"
  unfolding generateTypescriptInterface_def fieldLinesOf_generateImport pk_generateImport
    relationship_generateImport reverse_generateImport
  by (rule refl)

lemma interfacesLoop_generateImport:
  "interfacesLoop names (opts\<lparr>generateImport := g\<rparr>) s = interfacesLoop names opts s"
  by (induction names arbitrary: s)
     (simp_all add: interface_generateImport split: prod.splits sum.splits)

lemma importLine_nonempty: "importLine g n \<noteq> []"
  by (simp add: importLine_def)

lemma truthy_import_lines:
  "truthyLines (map (\<lambda>n. if P n then Some (importLine g n) else None) names)
     = map (importLine g) (filter P names)"
  by (induction names) (simp_all add: importLine_nonempty)

lemma join_nonempty: "ls \<noteq> [] \<Longrightarrow> hd ls \<noteq> [] \<Longrightarrow> join sep ls \<noteq> []"
  by (cases ls; cases "tl ls") auto

lemma imports_block:
  assumes "generateImport opts = Some g"
  shows "ifTruthy (generateTypescriptImports names opts) =
           (if filter (\<lambda>n. n \<notin> set (collections opts)) names = [] then []
            else [join ''\<newline>'' (map (importLine g) (filter (\<lambda>n. n \<notin> set (collections opts)) names))])"
proof (cases "filter (\<lambda>n. n \<notin> set (collections opts)) names = []")
  case True
  with assms show ?thesis
    by (simp add: generateTypescriptImports_def ifTruthy_def truthy_import_lines)
next
  case False
  then have "map (importLine g) (filter (\<lambda>n. n \<notin> set (collections opts)) names) \<noteq> []"
    by simp
  moreover have "hd (map (importLine g) (filter (\<lambda>n. n \<notin> set (collections opts)) names)) \<noteq> []"
    using False by (simp add: hd_map importLine_nonempty)
  ultimately have ne: "join ''\<newline>'' (map (importLine g)
                         (filter (\<lambda>n. n \<notin> set (collections opts)) names)) \<noteq> []"
    by (rule join_nonempty)
  from False have "names \<noteq> []" by auto
  with assms False ne show ?thesis
    by (simp add: generateTypescriptImports_def ifTruthy_def truthy_import_lines)
qed

lemma relationshipFieldsLoop_text:
  "fst (relationshipFieldsLoop n rs acc s) = fst (relationshipFieldsLoop n rs acc t)"
  by (induction n rs acc s arbitrary: t rule: relationshipFieldsLoop.induct) simp_all

lemma reverseRelationshipFieldsLoop_text:
  "fst (reverseRelationshipFieldsLoop n rs acc s) = fst (reverseRelationshipFieldsLoop n rs acc t)"
  by (induction n rs acc s arbitrary: t rule: reverseRelationshipFieldsLoop.induct) simp_all

lemma interfaceParameters_text:
  "fst (generateTypescriptInterfaceParameters cd s) = fst (generateTypescriptInterfaceParameters cd t)"
proof (cases "OtherRelationship \<in> set (forwardRelationships cd)")
  case True
  have "fst (generateTypescriptInterfaceParameters cd u)
          = Inl (Error (unsupportedRelationshipMessage (name cd)))" for u
    using relationshipFieldsLoop_fails [OF True, of "name cd" "[]" u] True
    by (cases "relationshipFieldsLoop (name cd) (forwardRelationships cd) [] u")
       (auto simp: generateTypescriptInterfaceParameters_def)
  then show ?thesis by simp
next
  case False
  show ?thesis
  proof (cases "OtherRelationship \<in> set (reverseRelationships cd)")
    case True
    have "fst (generateTypescriptInterfaceParameters cd u)
            = Inl (Error (unsupportedReverseRelationshipMessage (name cd) @ '' ''))" for u
      using reverseRelationshipFieldsLoop_fails
              [OF True, of "name cd" "[]"
                 "u\<lparr>referencedImports :=
                      foldl setAdd (referencedImports u) (childOfTargets (forwardRelationships cd)),
                    console := console u @ connectsWarnings (name cd) (forwardRelationships cd)\<rparr>"]
            True
      by (cases "reverseRelationshipFieldsLoop (name cd) (reverseRelationships cd) []
                   (u\<lparr>referencedImports :=
                        foldl setAdd (referencedImports u) (childOfTargets (forwardRelationships cd)),
                      console := console u @ connectsWarnings (name cd) (forwardRelationships cd)\<rparr>)")
         (auto simp: generateTypescriptInterfaceParameters_def relationshipFieldsLoop_ok [OF False])
    then show ?thesis by simp
  next
    case rev: False
    show ?thesis
      by (simp add: interfaceParameters_ok [OF False rev])
  qed
qed

lemma interface_text:
  "fst (generateTypescriptInterface v opts s) = fst (generateTypescriptInterface v opts t)"
proof (cases v)
  case Absent
  then show ?thesis by (simp add: generateTypescriptInterface_def)
next
  case (Inherited key)
  then show ?thesis by (simp add: generateTypescriptInterface_def)
next
  case (Own cd)
  obtain ps s1 where ps: "generateTypescriptInterfaceParameters cd s = (ps, s1)"
    by (cases "generateTypescriptInterfaceParameters cd s")
  obtain pt t1 where pt: "generateTypescriptInterfaceParameters cd t = (pt, t1)"
    by (cases "generateTypescriptInterfaceParameters cd t")
  from interfaceParameters_text [of cd s t] ps pt have "ps = pt" by simp
  with Own ps pt show ?thesis
    by (simp add: generateTypescriptInterface_def Let_def split: sum.splits)
qed

lemma interfacesLoop_decls:
  "interfacesLoop names opts s = (Inr decls, s') \<Longrightarrow>
   map Inr decls
     = map (\<lambda>n. fst (generateTypescriptInterface (propertyRead (storageRegistry s) n) opts t)) names
   \<and> (\<forall>d \<in> set decls. \<exists>rest. d = ''export type '' @ rest)"
proof (induction names arbitrary: s decls s')
  case Nil
  then show ?case by auto
next
  case (Cons n names)
  obtain r s1 where step:
    "generateTypescriptInterface (propertyRead (storageRegistry s) n) opts s = (r, s1)"
    by (cases "generateTypescriptInterface (propertyRead (storageRegistry s) n) opts s")
  obtain r2 s2 where rest: "interfacesLoop names opts s1 = (r2, s2)"
    by (cases "interfacesLoop names opts s1")
  from Cons.prems step obtain decl where r: "r = Inr decl"
    by (cases r) simp_all
  from Cons.prems step r rest obtain ds where r2: "r2 = Inr ds" and s2: "s2 = s'"
    and decls: "decls = decl # ds"
    by (cases r2) auto
  from interface_success_state [of "propertyRead (storageRegistry s) n" opts s decl s1] step r
  have head: "\<exists>rest. decl = ''export type '' @ rest"
    by auto
  have same: "fst (generateTypescriptInterface (propertyRead (storageRegistry s) n) opts t) = Inr decl"
    using interface_text [of "propertyRead (storageRegistry s) n" opts t s] step r by simp
  have reg: "storageRegistry s1 = storageRegistry s"
    using interface_registry [of "propertyRead (storageRegistry s) n" opts s] step by simp
  from Cons.IH [of s1 ds s'] rest r2 s2 reg
  have tail: "map Inr ds
     = map (\<lambda>n. fst (generateTypescriptInterface (propertyRead (storageRegistry s) n) opts t)) names
     \<and> (\<forall>d \<in> set ds. \<exists>rest. d = ''export type '' @ rest)"
    by simp
  from decls head same tail show ?case by simp
qed

text \<open>
  Claim C2. For a batch that returns the text \<open>out\<close>: \<open>out\<close> is an import block followed
  by the declarations of the requested collections, in request order, joined by blank
  lines and ended by one newline; each declaration is the text the declaration assembler
  gives for that collection and begins with \<^verbatim>\<open>export type\<close>. The names in the tracking
  set are the collections referenced by the requested collections (targets of forward
  child-of relationships, sources of reverse child-of relationships), each once, in the
  order of first reference. With a resolver, the import block is one line
  \<^verbatim>\<open>import { Name } from 'path' \<close> for each of these names that is not requested, in
  that order, and a blank line; when every referenced name is requested, or when no
  resolver is supplied, the import block is empty.
\<close>

theorem imports_for_external_references:
  assumes run: "generateTypescriptInterfaces s opts = (Inr out, s')"
    and ext: "external = filter (\<lambda>n. n \<notin> set (collections opts))
                (firstOccurrences (batchReferences (storageRegistry s) (collections opts)))"
  shows "(\<exists>decls.
           map Inr decls
             = map (\<lambda>n. fst (generateTypescriptInterface (propertyRead (storageRegistry s) n) opts s))
                 (collections opts)
           \<and> (\<forall>d \<in> set decls. \<exists>rest. d = ''export type '' @ rest)
           \<and> out = (case generateImport opts of
                      None \<Rightarrow> []
                    | Some g \<Rightarrow>
                        if external = [] then []
                        else join ''\<newline>'' (map (importLine g) external) @ ''\<newline>\<newline>'')
                   @ join ''\<newline>\<newline>'' decls @ ''\<newline>''
           \<and> generateTypescriptInterfaces s (opts\<lparr>generateImport := None\<rparr>)
               = (Inr (join ''\<newline>\<newline>'' decls @ ''\<newline>''), s'))
       \<and> (\<forall>g n. importLine g n
             = ''import { '' @ upperFirst n @ '' } from '' @ quoted (g n) @ '' '')
       \<and> referencedImports s' = firstOccurrences (batchReferences (storageRegistry s) (collections opts))
       \<and> distinct external
       \<and> set external = set (batchReferences (storageRegistry s) (collections opts)) - set (collections opts)"
proof -
  let ?s0 = "s\<lparr>referencedImports := []\<rparr>"
  obtain r s1 where loop: "interfacesLoop (collections opts) opts ?s0 = (r, s1)"
    by (cases "interfacesLoop (collections opts) opts ?s0")
  from run loop obtain decls where r: "r = Inr decls" and s1: "s1 = s'"
    by (cases r) (simp_all add: generateTypescriptInterfaces_def Let_def)
  from interfacesLoop_refs [of "collections opts" opts ?s0 decls s'] loop r s1
  have refs: "referencedImports s'
                = firstOccurrences (batchReferences (storageRegistry s) (collections opts))"
    by (simp add: foldl_setAdd_empty)
  have dist: "distinct external"
    using ext by (simp add: distinct_firstOccurrences)
  have sets: "set external = set (batchReferences (storageRegistry s) (collections opts)) - set (collections opts)"
    using ext by (auto simp: set_firstOccurrences)
  have line: "\<forall>g n. importLine g n
             = ''import { '' @ upperFirst n @ '' } from '' @ quoted (g n) @ '' ''"
    by (simp add: importLine_def)
  from interfacesLoop_decls [of "collections opts" opts ?s0 decls s' s] loop r s1
  have decl_texts: "map Inr decls
             = map (\<lambda>n. fst (generateTypescriptInterface (propertyRead (storageRegistry s) n) opts s))
                 (collections opts)"
    and heads: "\<forall>d \<in> set decls. \<exists>rest. d = ''export type '' @ rest"
    by simp_all
  let ?decl = "join ''\<newline>\<newline>'' decls @ ''\<newline>''"
  have none: "generateTypescriptInterfaces s (opts\<lparr>generateImport := None\<rparr>) = (Inr ?decl, s')"
    using loop r s1
    by (simp add: generateTypescriptInterfaces_def interfacesLoop_generateImport
          generateTypescriptImports_def ifTruthy_def Let_def)
  have out: "out = join ''\<newline>\<newline>'' (ifTruthy (generateTypescriptImports (referencedImports s') opts) @ [?decl])"
    using run loop r s1 by (simp add: generateTypescriptInterfaces_def Let_def)
  have "out = (case generateImport opts of
                 None \<Rightarrow> []
               | Some g \<Rightarrow>
                   if external = [] then []
                   else join ''\<newline>'' (map (importLine g) external) @ ''\<newline>\<newline>'')
              @ ?decl"
  proof (cases "generateImport opts")
    case None
    with out show ?thesis
      by (simp add: generateTypescriptImports_def ifTruthy_def)
  next
    case (Some g)
    with out refs ext show ?thesis
      by (simp add: imports_block [OF Some])
  qed
  with decl_texts heads none have "\<exists>decls.
           map Inr decls
             = map (\<lambda>n. fst (generateTypescriptInterface (propertyRead (storageRegistry s) n) opts s))
                 (collections opts)
           \<and> (\<forall>d \<in> set decls. \<exists>rest. d = ''export type '' @ rest)
           \<and> out = (case generateImport opts of
                      None \<Rightarrow> []
                    | Some g \<Rightarrow>
                        if external = [] then []
                        else join ''\<newline>'' (map (importLine g) external) @ ''\<newline>\<newline>'')
                   @ join ''\<newline>\<newline>'' decls @ ''\<newline>''
           \<and> generateTypescriptInterfaces s (opts\<lparr>generateImport := None\<rparr>)
               = (Inr (join ''\<newline>\<newline>'' decls @ ''\<newline>''), s')"
    by blast
  with line refs dist sets show ?thesis
    by blast
qed

theorem imports_for_external_references_witness:
  "fst (generateTypescriptInterfaces exampleState (exampleOptions AutoPkInt [''bar'']))
     = Inr ''import { Foo } from './foo' \<newline>\<newline>export type Bar<WithPk extends boolean = true, Relationships extends 'foo' | null = null> =\<newline>    ( WithPk extends true ? { id : number } : {} ) &\<newline>    {\<newline>        eggs? : string\<newline>    } &\<newline>    {\<newline>        foo : 'foo' extends Relationships ? Foo : number\<newline>    }\<newline>''
   \<and> referencedImports (snd (generateTypescriptInterfaces exampleState (exampleOptions AutoPkInt [''bar'']))) = [''foo'']
   \<and> fst (generateTypescriptInterfaces exampleState (exampleOptions AutoPkInt [''foo'', ''bar'']))
     = Inr ''export type Foo<WithPk extends boolean = true, Relationships extends null = null, ReverseRelationships extends 'bars' | null = null> =\<newline>    ( WithPk extends true ? { id : number } : {} ) &\<newline>    {\<newline>        spam : string\<newline>    } &\<newline>    ( 'bars' extends ReverseRelationships ? { bars : Bar[] } : {} )\<newline>\<newline>export type Bar<WithPk extends boolean = true, Relationships extends 'foo' | null = null> =\<newline>    ( WithPk extends true ? { id : number } : {} ) &\<newline>    {\<newline>        eggs? : string\<newline>    } &\<newline>    {\<newline>        foo : 'foo' extends Relationships ? Foo : number\<newline>    }\<newline>''
   \<and> referencedImports (snd (generateTypescriptInterfaces exampleState (exampleOptions AutoPkInt [''foo'', ''bar'']))) = [''bar'', ''foo'']
   \<and> fst (generateTypescriptInterfaces exampleState (exampleOptions AutoPkInt [''foo'', ''bar'']))
     = fst (generateTypescriptInterfaces exampleState ((exampleOptions AutoPkInt [''foo'', ''bar''])\<lparr>generateImport := None\<rparr>))"
proof -
  let ?o1 = "exampleOptions AutoPkInt [''bar'']"
  let ?o2 = "exampleOptions AutoPkInt [''foo'', ''bar'']"
  let ?text1 = "''import { Foo } from './foo' \<newline>\<newline>export type Bar<WithPk extends boolean = true, Relationships extends 'foo' | null = null> =\<newline>    ( WithPk extends true ? { id : number } : {} ) &\<newline>    {\<newline>        eggs? : string\<newline>    } &\<newline>    {\<newline>        foo : 'foo' extends Relationships ? Foo : number\<newline>    }\<newline>''"
  let ?text2 = "''export type Foo<WithPk extends boolean = true, Relationships extends null = null, ReverseRelationships extends 'bars' | null = null> =\<newline>    ( WithPk extends true ? { id : number } : {} ) &\<newline>    {\<newline>        spam : string\<newline>    } &\<newline>    ( 'bars' extends ReverseRelationships ? { bars : Bar[] } : {} )\<newline>\<newline>export type Bar<WithPk extends boolean = true, Relationships extends 'foo' | null = null> =\<newline>    ( WithPk extends true ? { id : number } : {} ) &\<newline>    {\<newline>        eggs? : string\<newline>    } &\<newline>    {\<newline>        foo : 'foo' extends Relationships ? Foo : number\<newline>    }\<newline>''"
  have out1: "fst (generateTypescriptInterfaces exampleState ?o1) = Inr ?text1"
    by code_simp
  then have run1: "generateTypescriptInterfaces exampleState ?o1
                     = (Inr ?text1, snd (generateTypescriptInterfaces exampleState ?o1))"
    by (simp add: prod_eq_iff)
  have refs1: "firstOccurrences (batchReferences (storageRegistry exampleState) (collections ?o1)) = [''foo'']"
    by code_simp
  from imports_for_external_references [OF run1 refl] refs1
  have a: "referencedImports (snd (generateTypescriptInterfaces exampleState ?o1)) = [''foo'']"
    by simp
  have out2: "fst (generateTypescriptInterfaces exampleState ?o2) = Inr ?text2"
    by code_simp
  then have run2: "generateTypescriptInterfaces exampleState ?o2
                     = (Inr ?text2, snd (generateTypescriptInterfaces exampleState ?o2))"
    by (simp add: prod_eq_iff)
  have refs2: "firstOccurrences (batchReferences (storageRegistry exampleState) (collections ?o2))
                 = [''bar'', ''foo'']"
    by code_simp
  have ext2: "filter (\<lambda>n. n \<notin> set (collections ?o2)) [''bar'', ''foo''] = []"
    by (simp add: exampleOptions_def)
  note t2 = imports_for_external_references [OF run2 refl]
  from t2 refs2 have b: "referencedImports (snd (generateTypescriptInterfaces exampleState ?o2)) = [''bar'', ''foo'']"
    by simp
  from t2 refs2 ext2 out2
  have c: "fst (generateTypescriptInterfaces exampleState ?o2)
     = fst (generateTypescriptInterfaces exampleState (?o2\<lparr>generateImport := None\<rparr>))"
    by (auto simp: exampleOptions_def)
  from out1 a out2 b c show ?thesis by simp
qed

end
